theory Spec2Isabelle
  imports Complex_Main "HOL-Library.AList"
begin

section \<open>The trading agent: data model\<close>

text \<open>
  A shallow embedding of the class \<open>CoinbaseTradingAgent\<close> (the agent with price
  alerts, strategies and the monitoring loop). The numbers the agent stores (prices,
  targets, thresholds) are finite doubles, written as the reals they denote; comparing
  them is exact. What the evaluators compute from them (grid lines, percentage change,
  mean, deviation, z-score) is computed as the code computes it: every operation
  rounds its exact result to the nearest double (\<open>fl\<close>), overflows to an infinity,
  and propagates \<open>NaN\<close> (type \<open>number\<close>). Signed zeros are not distinguished: the agent
  only compares its numbers and divides them by a count, a recorded price or a square
  root. The interval of a DCA strategy is a count of minutes: its product with
  \<open>60 * 1000\<close> is written exactly, as it is for whole minutes.
  Clock readings (\<open>Date.now()\<close>) are integers (milliseconds) passed in as \<open>now\<close>;
  one reading serves a whole call. Generated identifiers (\<open>alert_...\<close>,
  \<open>strategy_...\<close>) and the random draws of the mock price feed are passed in as
  arguments. The agent is run sequentially: a call made with \<open>await\<close> is complete
  when it returns.
\<close>

datatype orderType = Market | Limit

datatype side = Buy | Sell

datatype condition = Above | Below

datatype error =
    AgentNotInitialized
  | NoMarketDataAvailable string
  | CallbackError

text \<open>A computed JavaScript number: finite, or one of the IEEE special values.\<close>

datatype number = Fin real | PInf | NInf | NaN

record TradeConfig =
  productId :: string
  orderType :: orderType
  side :: side
  amount :: string
  limitPrice :: "string option"

text \<open>
  \<open>tradeDetails = { id: `trade_${Date.now()}`, ...config, status, timestamp, executedPrice }\<close>:
  the configuration's fields and four more. \<open>trade_id\<close> holds the clock reading of
  the identifier, \<open>timestamp\<close> the reading of \<open>new Date()\<close>.
\<close>

record TradeDetails = TradeConfig +
  trade_id :: int
  status :: string
  timestamp :: int
  executedPrice :: real

text \<open>
  \<open>parameters: any\<close> holds one of four shapes, one per strategy type; the
  constructor of \<open>parameters\<close> is the strategy's \<open>type\<close> field.
\<close>

record dca_params =
  amountPerTrade :: string
  intervalMinutes :: real
  lastExecution :: "int option"

record grid_params =
  lowerPrice :: real
  upperPrice :: real
  gridLevels :: real
  amountPerLevel :: string
  activeLevels :: "real list"

record momentum_params =
  threshold :: real
  tradeAmount :: string
  lastPrice :: "real option"

record meanrev_params =
  lookbackPeriod :: real
  stdDevThreshold :: real
  mr_tradeAmount :: string
  priceHistory :: "real list"

datatype parameters =
    DCA dca_params
  | Grid grid_params
  | Momentum momentum_params
  | MeanReversion meanrev_params

text \<open>
  An alert's callback is user code. Called with the price, it may call into the agent
  and then returns or throws: \<open>Calls c r\<close> makes the call \<open>c\<close> and goes on as
  \<open>r\<close>. The calls are the agent's trade and strategy operations (so
  \<open>agent.marketBuy(...)\<close> in a callback is \<open>CallExecuteTrade\<close> with a market order). A
  failure inside such a call stays inside its promise and does not reach the callback's
  caller; likewise an \<open>async\<close> callback that fails has, for its caller, returned.
  \<open>Thrown\<close> is a callback that throws to its caller. The effects of a call are placed
  where the call is made; in the code the part of \<open>executeTrade\<close> after its first
  \<open>await\<close> runs later, between the steps of the scan that made the call. What is
  stated about a scan is therefore stated about the alerts and the scan's own effects,
  which no call touches. Callbacks that add or remove alerts while the alerts are
  scanned are not modelled.
\<close>

datatype call =
    CallExecuteTrade int TradeConfig
  | CallCreateStrategy string string bool string parameters
  | CallEnableStrategy string
  | CallDisableStrategy string

datatype cb_result = Returned | Thrown | Calls call cb_result

record PriceAlert =
  alert_id :: string
  alert_productId :: string
  targetPrice :: real
  condition :: condition
  active :: bool
  callback :: "(real \<Rightarrow> cb_result) option"

record MarketData =
  md_productId :: string
  price :: real
  volume24h :: real
  priceChange24h :: real
  md_timestamp :: int

record TradingStrategy =
  strategy_id :: string
  name :: string
  enabled :: bool
  strategy_productId :: string
  parameters :: parameters

text \<open>Events of the \<open>EventEmitter\<close>, and the lines written to the console.\<close>

datatype event =
    priceAlert string string real real
  | tradeExecuted TradeDetails

datatype logline =
    AlertCreated string condition real
  | AlertTriggered string condition real
  | CurrentPrice real
  | StrategyCreated string
  | StrategyError string error
  | StrategyEnabled string
  | StrategyDisabled string
  | ExecutingDCA string string
  | GridLevelHit number
  | MomentumBuySignal number
  | MomentumSellSignal number
  | MeanReversionBuy number
  | MeanReversionSell number
  | ExecutingOrder side string string
  | TradeExecutedAt real

text \<open>
  Everything the agent does to the outside, in the order it does it: a console line, an
  emitted event, or a call of an alert's callback (alert id and the price passed).
  The class attaches no listener to its events; the listeners its user attaches with
  \<open>on\<close> are taken to return, so that \<open>emit\<close> returns.
\<close>

datatype effect = Log logline | Emit event | Invoke string real

text \<open>
  The agent's fields. The three \<open>Map\<close>s of the class: alerts and strategies are
  iterated in insertion order, so they are association lists; market data is only looked
  up. \<open>account\<close> is the address of the account, absent before \<open>initialize\<close>.
\<close>

record agent =
  account :: "string option"
  priceAlerts :: "(string \<times> PriceAlert) list"
  strategies :: "(string \<times> TradingStrategy) list"
  marketData :: "string \<rightharpoonup> MarketData"
  orderHistory :: "TradeDetails list"
  trace :: "effect list"

definition emitted :: "effect list \<Rightarrow> event list" where
  "emitted out = concat (map (\<lambda>x. case x of Emit ev \<Rightarrow> [ev] | _ \<Rightarrow> []) out)"

definition say :: "effect list \<Rightarrow> agent \<Rightarrow> agent" where
  "say out s = s\<lparr>trace := trace s @ out\<rparr>"

section \<open>JavaScript arithmetic\<close>

text \<open>
  Rounding to the nearest double, ties to even. A double is \<open>m * 2\<^sup>e\<close> with
  \<open>\<bar>m\<bar> < 2\<^sup>5\<^sup>3\<close> and \<open>e \<ge> -1074\<close>: the exact result \<open>x\<close> is scaled by the power of two
  that leaves 53 significant bits (fewer below \<open>2\<^sup>-\<^sup>1\<^sup>0\<^sup>2\<^sup>2\<close>), rounded to an integer and
  scaled back; a result of magnitude \<open>2\<^sup>1\<^sup>0\<^sup>2\<^sup>4\<close> or more is an infinity.
\<close>

definition round_even :: "real \<Rightarrow> int" where
  "round_even y =
     (let f = \<lfloor>y\<rfloor>; r = y - of_int f
      in if r < 1 / 2 then f else if 1 / 2 < r then f + 1 else if even f then f else f + 1)"

definition fl :: "real \<Rightarrow> number" where
  "fl x =
     (if x = 0 then Fin 0
      else
        (let e = max (\<lfloor>log 2 \<bar>x\<bar>\<rfloor> - 52) (- 1074);
             r = of_int (round_even (x / 2 powr of_int e)) * 2 powr of_int e
         in if 2 ^ 1024 \<le> \<bar>r\<bar> then (if 0 < x then PInf else NInf) else Fin r))"

fun js_neg :: "number \<Rightarrow> number" where
  "js_neg NaN = NaN"
| "js_neg (Fin a) = Fin (- a)"
| "js_neg PInf = NInf"
| "js_neg NInf = PInf"

fun js_add :: "number \<Rightarrow> number \<Rightarrow> number" where
  "js_add NaN _ = NaN"
| "js_add _ NaN = NaN"
| "js_add (Fin a) (Fin b) = fl (a + b)"
| "js_add PInf NInf = NaN"
| "js_add NInf PInf = NaN"
| "js_add PInf _ = PInf"
| "js_add NInf _ = NInf"
| "js_add (Fin a) PInf = PInf"
| "js_add (Fin a) NInf = NInf"

definition js_sub :: "number \<Rightarrow> number \<Rightarrow> number" where
  "js_sub a b = js_add a (js_neg b)"

fun js_mul :: "number \<Rightarrow> number \<Rightarrow> number" where
  "js_mul NaN _ = NaN"
| "js_mul _ NaN = NaN"
| "js_mul (Fin a) (Fin b) = fl (a * b)"
| "js_mul (Fin a) PInf = (if a = 0 then NaN else if 0 < a then PInf else NInf)"
| "js_mul (Fin a) NInf = (if a = 0 then NaN else if 0 < a then NInf else PInf)"
| "js_mul PInf (Fin b) = (if b = 0 then NaN else if 0 < b then PInf else NInf)"
| "js_mul NInf (Fin b) = (if b = 0 then NaN else if 0 < b then NInf else PInf)"
| "js_mul PInf PInf = PInf"
| "js_mul PInf NInf = NInf"
| "js_mul NInf PInf = NInf"
| "js_mul NInf NInf = PInf"

text \<open>\<open>Math.pow(x, 2)\<close>, taken to be the correctly rounded square.\<close>

definition js_sq :: "number \<Rightarrow> number" where
  "js_sq a = js_mul a a"

text \<open>
  Division: a nonzero number over zero is an infinity, zero over zero is NaN. The
  divisors of the agent are a length and a square root, so a zero divisor is \<open>+0\<close>.
\<close>

fun js_div :: "number \<Rightarrow> number \<Rightarrow> number" where
  "js_div NaN _ = NaN"
| "js_div _ NaN = NaN"
| "js_div (Fin a) (Fin b) =
     (if b \<noteq> 0 then fl (a / b)
      else if a = 0 then NaN else if 0 < a then PInf else NInf)"
| "js_div (Fin a) PInf = Fin 0"
| "js_div (Fin a) NInf = Fin 0"
| "js_div PInf (Fin b) = (if 0 \<le> b then PInf else NInf)"
| "js_div NInf (Fin b) = (if 0 \<le> b then NInf else PInf)"
| "js_div PInf _ = NaN"
| "js_div NInf _ = NaN"

text \<open>\<open>Math.abs\<close> and \<open>Math.sqrt\<close> (the rounded square root).\<close>

fun js_abs :: "number \<Rightarrow> number" where
  "js_abs NaN = NaN"
| "js_abs (Fin a) = Fin \<bar>a\<bar>"
| "js_abs PInf = PInf"
| "js_abs NInf = PInf"

fun js_sqrt :: "number \<Rightarrow> number" where
  "js_sqrt NaN = NaN"
| "js_sqrt (Fin a) = (if a < 0 then NaN else fl (sqrt a))"
| "js_sqrt PInf = PInf"
| "js_sqrt NInf = NaN"

text \<open>Comparison: false whenever an operand is NaN.\<close>

fun js_lt :: "number \<Rightarrow> number \<Rightarrow> bool" where
  "js_lt NaN _ = False"
| "js_lt _ NaN = False"
| "js_lt (Fin a) (Fin b) = (a < b)"
| "js_lt PInf _ = False"
| "js_lt NInf NInf = False"
| "js_lt NInf _ = True"
| "js_lt (Fin a) PInf = True"
| "js_lt (Fin a) NInf = False"

definition js_gt :: "number \<Rightarrow> number \<Rightarrow> bool" where
  "js_gt a b = js_lt b a"

definition js_ge :: "number \<Rightarrow> number \<Rightarrow> bool" where
  "js_ge a b = (a \<noteq> NaN \<and> b \<noteq> NaN \<and> \<not> js_lt a b)"

section \<open>Market data\<close>

definition mockProducts :: "string list" where
  "mockProducts = [''BTC-USD'', ''ETH-USD'', ''SOL-USD'']"

text \<open>
  \<open>updateMarketData\<close>: \<open>rnd p\<close> are the three draws of \<open>Math.random()\<close>
  for product \<open>p\<close>. The scaling of the draws is written over the reals: the mock
  prices are inputs of everything below, and nothing depends on how they were rounded.
\<close>

definition updateMarketData :: "(string \<Rightarrow> real \<times> real \<times> real) \<Rightarrow> int \<Rightarrow> agent \<Rightarrow> agent" where
  "updateMarketData rnd now s =
     foldl (\<lambda>s' p.
        (case rnd p of (r1, r2, r3) \<Rightarrow>
           s'\<lparr>marketData := (marketData s')(p \<mapsto>
              \<lparr>md_productId = p, price = r1 * 50000 + 30000, volume24h = r2 * 1000000,
               priceChange24h = (r3 - 0.5) * 10, md_timestamp = now\<rparr>)\<rparr>))
       s mockProducts"

definition getMarketData :: "string \<Rightarrow> agent \<Rightarrow> MarketData option" where
  "getMarketData p s = marketData s p"

definition getCurrentPrice :: "string \<Rightarrow> agent \<Rightarrow> error + real" where
  "getCurrentPrice p s =
     (case getMarketData p s of
        None \<Rightarrow> Inl (NoMarketDataAvailable p)
      | Some d \<Rightarrow> Inr (price d))"

section \<open>Core trading functions\<close>

definition executeTrade :: "int \<Rightarrow> TradeConfig \<Rightarrow> agent \<Rightarrow> (error + TradeDetails) \<times> agent" where
  "executeTrade now config s =
     (case account s of
        None \<Rightarrow> (Inl AgentNotInitialized, s)
      | Some _ \<Rightarrow>
          (let s1 = say [Log (ExecutingOrder (side config) (amount config) (productId config))] s in
           case getCurrentPrice (productId config) s1 of
             Inl e \<Rightarrow> (Inl e, s1)
           | Inr p \<Rightarrow>
               (let tradeDetails = TradeConfig.extend config
                      (TradeDetails.fields now ''completed'' now p);
                    s2 = s1\<lparr>orderHistory := orderHistory s1 @ [tradeDetails]\<rparr>;
                    s3 = say [Emit (tradeExecuted tradeDetails), Log (TradeExecutedAt p)] s2
                in (Inr tradeDetails, s3))))"

definition marketBuy :: "int \<Rightarrow> string \<Rightarrow> string \<Rightarrow> agent \<Rightarrow> (error + TradeDetails) \<times> agent" where
  "marketBuy now p amt =
     executeTrade now \<lparr>productId = p, orderType = Market, side = Buy, amount = amt, limitPrice = None\<rparr>"

definition marketSell :: "int \<Rightarrow> string \<Rightarrow> string \<Rightarrow> agent \<Rightarrow> (error + TradeDetails) \<times> agent" where
  "marketSell now p amt =
     executeTrade now \<lparr>productId = p, orderType = Market, side = Sell, amount = amt, limitPrice = None\<rparr>"

definition limitBuy :: "int \<Rightarrow> string \<Rightarrow> string \<Rightarrow> string \<Rightarrow> agent \<Rightarrow> (error + TradeDetails) \<times> agent" where
  "limitBuy now p amt lp =
     executeTrade now \<lparr>productId = p, orderType = Limit, side = Buy, amount = amt, limitPrice = Some lp\<rparr>"

definition limitSell :: "int \<Rightarrow> string \<Rightarrow> string \<Rightarrow> string \<Rightarrow> agent \<Rightarrow> (error + TradeDetails) \<times> agent" where
  "limitSell now p amt lp =
     executeTrade now \<lparr>productId = p, orderType = Limit, side = Sell, amount = amt, limitPrice = Some lp\<rparr>"

section \<open>The strategy registry\<close>

definition createStrategy ::
  "string \<Rightarrow> string \<Rightarrow> bool \<Rightarrow> string \<Rightarrow> parameters \<Rightarrow> agent \<Rightarrow> string \<times> agent" where
  "createStrategy strategyId nm en p ps s =
     (let strategy = \<lparr>strategy_id = strategyId, name = nm, enabled = en,
                       strategy_productId = p, parameters = ps\<rparr>;
          s1 = s\<lparr>strategies := AList.update strategyId strategy (strategies s)\<rparr>
      in (strategyId, say [Log (StrategyCreated nm)] s1))"

definition createDCAStrategy :: "string \<Rightarrow> string \<Rightarrow> string \<Rightarrow> real \<Rightarrow> agent \<Rightarrow> string \<times> agent" where
  "createDCAStrategy strategyId p amt mins =
     createStrategy strategyId (''DCA - '' @ p) True p
       (DCA \<lparr>amountPerTrade = amt, intervalMinutes = mins, lastExecution = None\<rparr>)"

definition createGridStrategy ::
  "string \<Rightarrow> string \<Rightarrow> real \<Rightarrow> real \<Rightarrow> real \<Rightarrow> string \<Rightarrow> agent \<Rightarrow> string \<times> agent" where
  "createGridStrategy strategyId p lower upper levels amt =
     createStrategy strategyId (''Grid - '' @ p) True p
       (Grid \<lparr>lowerPrice = lower, upperPrice = upper, gridLevels = levels,
              amountPerLevel = amt, activeLevels = []\<rparr>)"

definition createMomentumStrategy :: "string \<Rightarrow> string \<Rightarrow> real \<Rightarrow> string \<Rightarrow> agent \<Rightarrow> string \<times> agent" where
  "createMomentumStrategy strategyId p thr amt =
     createStrategy strategyId (''Momentum - '' @ p) True p
       (Momentum \<lparr>threshold = thr, tradeAmount = amt, lastPrice = None\<rparr>)"

definition createMeanReversionStrategy ::
  "string \<Rightarrow> string \<Rightarrow> real \<Rightarrow> real \<Rightarrow> string \<Rightarrow> agent \<Rightarrow> string \<times> agent" where
  "createMeanReversionStrategy strategyId p lookback thr amt =
     createStrategy strategyId (''Mean Reversion - '' @ p) True p
       (MeanReversion \<lparr>lookbackPeriod = lookback, stdDevThreshold = thr,
                       mr_tradeAmount = amt, priceHistory = []\<rparr>)"

definition enableStrategy :: "string \<Rightarrow> agent \<Rightarrow> bool \<times> agent" where
  "enableStrategy strategyId s =
     (case map_of (strategies s) strategyId of
        Some strategy \<Rightarrow>
          (True, say [Log (StrategyEnabled (name strategy))]
                   (s\<lparr>strategies := AList.update strategyId (strategy\<lparr>enabled := True\<rparr>) (strategies s)\<rparr>))
      | None \<Rightarrow> (False, s))"

definition disableStrategy :: "string \<Rightarrow> agent \<Rightarrow> bool \<times> agent" where
  "disableStrategy strategyId s =
     (case map_of (strategies s) strategyId of
        Some strategy \<Rightarrow>
          (True, say [Log (StrategyDisabled (name strategy))]
                   (s\<lparr>strategies := AList.update strategyId (strategy\<lparr>enabled := False\<rparr>) (strategies s)\<rparr>))
      | None \<Rightarrow> (False, s))"

definition listStrategies :: "agent \<Rightarrow> TradingStrategy list" where
  "listStrategies s = map snd (strategies s)"

section \<open>Price alerts\<close>

text \<open>Running a callback: its calls, in order, and whether it threw.\<close>

fun apply_call :: "call \<Rightarrow> agent \<Rightarrow> agent" where
  "apply_call (CallExecuteTrade now config) s = snd (executeTrade now config s)"
| "apply_call (CallCreateStrategy strategyId nm en p ps) s = snd (createStrategy strategyId nm en p ps s)"
| "apply_call (CallEnableStrategy strategyId) s = snd (enableStrategy strategyId s)"
| "apply_call (CallDisableStrategy strategyId) s = snd (disableStrategy strategyId s)"

fun run_callback :: "cb_result \<Rightarrow> agent \<Rightarrow> error option \<times> agent" where
  "run_callback Returned s = (None, s)"
| "run_callback Thrown s = (Some CallbackError, s)"
| "run_callback (Calls c r) s = run_callback r (apply_call c s)"

definition createPriceAlert ::
  "string \<Rightarrow> string \<Rightarrow> real \<Rightarrow> condition \<Rightarrow> (real \<Rightarrow> cb_result) option \<Rightarrow> agent \<Rightarrow> string \<times> agent" where
  "createPriceAlert alertId p target cond cb s =
     (let alert = \<lparr>alert_id = alertId, alert_productId = p, targetPrice = target,
                    condition = cond, active = True, callback = cb\<rparr>;
          s1 = s\<lparr>priceAlerts := AList.update alertId alert (priceAlerts s)\<rparr>
      in (alertId, say [Log (AlertCreated p cond target)] s1))"

text \<open>\<open>triggered\<close> of \<open>checkPriceAlerts\<close>.\<close>

definition triggered :: "PriceAlert \<Rightarrow> MarketData \<Rightarrow> bool" where
  "triggered alert d =
     ((condition alert = Above \<and> price d \<ge> targetPrice alert) \<or>
      (condition alert = Below \<and> price d \<le> targetPrice alert))"

definition keep :: "'a \<Rightarrow> 'e \<times> 'a list \<times> 's \<Rightarrow> 'e \<times> 'a list \<times> 's" where
  "keep x r = (case r of (e, xs, s) \<Rightarrow> (e, x # xs, s))"

text \<open>
  The loop of \<open>checkPriceAlerts\<close> over the entries of the map, from the current entry
  on. It returns the error that left the loop (a callback that threw), the entries as
  the loop leaves them, and the agent. The alert objects are updated in place: an entry
  the loop has passed keeps its new value, one it has not reached is unchanged.
\<close>

fun checkPriceAlerts_loop ::
  "(string \<times> PriceAlert) list \<Rightarrow> agent \<Rightarrow> error option \<times> (string \<times> PriceAlert) list \<times> agent" where
  "checkPriceAlerts_loop [] s = (None, [], s)"
| "checkPriceAlerts_loop ((aid, alert) # rest) s =
     (if \<not> active alert then keep (aid, alert) (checkPriceAlerts_loop rest s)
      else
        (case getMarketData (alert_productId alert) s of
           None \<Rightarrow> keep (aid, alert) (checkPriceAlerts_loop rest s)
         | Some d \<Rightarrow>
             if triggered alert d then
               (let s1 = say [Log (AlertTriggered (alert_productId alert) (condition alert) (targetPrice alert)),
                              Log (CurrentPrice (price d)),
                              Emit (priceAlert aid (alert_productId alert) (price d) (targetPrice alert))] s
                in case callback alert of
                     None \<Rightarrow> keep (aid, alert\<lparr>active := False\<rparr>) (checkPriceAlerts_loop rest s1)
                   | Some cb \<Rightarrow>
                       (case run_callback (cb (price d)) (say [Invoke aid (price d)] s1) of
                          (Some e, s2) \<Rightarrow> (Some e, (aid, alert) # rest, s2)
                        | (None, s2) \<Rightarrow>
                            keep (aid, alert\<lparr>active := False\<rparr>) (checkPriceAlerts_loop rest s2)))
             else keep (aid, alert) (checkPriceAlerts_loop rest s)))"

definition checkPriceAlerts :: "agent \<Rightarrow> error option \<times> agent" where
  "checkPriceAlerts s =
     (case checkPriceAlerts_loop (priceAlerts s) s of
        (e, alerts, s') \<Rightarrow> (e, s'\<lparr>priceAlerts := alerts\<rparr>))"

definition removePriceAlert :: "string \<Rightarrow> agent \<Rightarrow> bool \<times> agent" where
  "removePriceAlert alertId s =
     (map_of (priceAlerts s) alertId \<noteq> None,
      s\<lparr>priceAlerts := AList.delete alertId (priceAlerts s)\<rparr>)"

definition listPriceAlerts :: "agent \<Rightarrow> PriceAlert list" where
  "listPriceAlerts s = map snd (priceAlerts s)"

section \<open>The strategy evaluators\<close>

text \<open>
  The evaluators take the strategy's product and its parameters, and return the error
  they threw (if any), the parameters as they leave them, and the agent.
\<close>

definition executeDCAStrategy ::
  "int \<Rightarrow> string \<Rightarrow> dca_params \<Rightarrow> agent \<Rightarrow> error option \<times> dca_params \<times> agent" where
  "executeDCAStrategy now p ps s =
     (if (case lastExecution ps of
            None \<Rightarrow> False
          | Some t \<Rightarrow> t \<noteq> 0 \<and> real_of_int (now - t) < intervalMinutes ps * 60 * 1000)
      then (None, ps, s)
      else
        (case marketBuy now p (amountPerTrade ps) (say [Log (ExecutingDCA (amountPerTrade ps) p)] s) of
           (Inl e, s') \<Rightarrow> (Some e, ps, s')
         | (Inr _, s') \<Rightarrow> (None, ps\<lparr>lastExecution := Some now\<rparr>, s')))"

text \<open>
  The \<open>for\<close> loop of the grid evaluator, from index \<open>i\<close> on: the console lines it
  writes. It runs while \<open>i < gridLevels\<close>; the counter is exact. The literal \<open>0.1\<close>
  is the double nearest to one tenth.
\<close>

function gridLoop :: "real \<Rightarrow> number \<Rightarrow> real \<Rightarrow> real \<Rightarrow> nat \<Rightarrow> effect list" where
  "gridLoop lower gridSize levels currentPrice i =
     (if real i < levels then
        (let gridPrice = js_add (Fin lower) (js_mul (Fin (real i)) gridSize)
         in (if js_lt (js_abs (js_sub (Fin currentPrice) gridPrice)) (js_mul gridSize (fl 0.1))
             then [Log (GridLevelHit gridPrice)] else [])
            @ gridLoop lower gridSize levels currentPrice (Suc i))
      else [])"
  by pat_completeness auto
termination
  by (relation "measure (\<lambda>(lower, gridSize, levels, currentPrice, i). nat \<lceil>levels\<rceil> - i)")
     (auto simp: zless_nat_eq_int_zless less_ceiling_iff intro!: diff_less_mono2)

declare gridLoop.simps [simp del]

definition executeGridStrategy ::
  "string \<Rightarrow> grid_params \<Rightarrow> agent \<Rightarrow> error option \<times> grid_params \<times> agent" where
  "executeGridStrategy p ps s =
     (case getCurrentPrice p s of
        Inl e \<Rightarrow> (Some e, ps, s)
      | Inr currentPrice \<Rightarrow>
          (let gridSize = js_div (js_sub (Fin (upperPrice ps)) (Fin (lowerPrice ps))) (Fin (gridLevels ps))
           in (None, ps, say (gridLoop (lowerPrice ps) gridSize (gridLevels ps) currentPrice 0) s)))"

text \<open>
  \<open>if (lastPrice)\<close> is false for \<open>null\<close> and for \<open>0\<close>, so the division below
  is by a nonzero number.
\<close>

definition executeMomentumStrategy ::
  "int \<Rightarrow> string \<Rightarrow> momentum_params \<Rightarrow> agent \<Rightarrow> error option \<times> momentum_params \<times> agent" where
  "executeMomentumStrategy now p ps s =
     (case getCurrentPrice p s of
        Inl e \<Rightarrow> (Some e, ps, s)
      | Inr currentPrice \<Rightarrow>
          (let done = (\<lambda>s'. (None, ps\<lparr>lastPrice := Some currentPrice\<rparr>, s'))
           in case lastPrice ps of
                None \<Rightarrow> done s
              | Some lp \<Rightarrow>
                  if lp = 0 then done s
                  else
                    (let priceChange =
                           js_mul (js_div (js_sub (Fin currentPrice) (Fin lp)) (Fin lp)) (Fin 100)
                     in if js_ge (js_abs priceChange) (Fin (threshold ps)) then
                          (if js_gt priceChange (Fin 0) then
                             (case marketBuy now p (tradeAmount ps) (say [Log (MomentumBuySignal priceChange)] s) of
                                (Inl e, s') \<Rightarrow> (Some e, ps, s')
                              | (Inr _, s') \<Rightarrow> done s')
                           else
                             (case marketSell now p (tradeAmount ps) (say [Log (MomentumSellSignal priceChange)] s) of
                                (Inl e, s') \<Rightarrow> (Some e, ps, s')
                              | (Inr _, s') \<Rightarrow> done s'))
                        else done s)))"

text \<open>
  The statistics of the mean-reversion evaluator over the buffer \<open>h\<close>: both
  \<open>reduce\<close> calls add from the left, starting from \<open>0\<close>.
\<close>

definition mr_mean :: "real list \<Rightarrow> real \<Rightarrow> number" where
  "mr_mean h lookback = js_div (foldl (\<lambda>a b. js_add a (Fin b)) (Fin 0) h) (Fin lookback)"

definition mr_variance :: "real list \<Rightarrow> real \<Rightarrow> number" where
  "mr_variance h lookback =
     js_div (foldl (\<lambda>sum pr. js_add sum (js_sq (js_sub (Fin pr) (mr_mean h lookback)))) (Fin 0) h)
            (Fin lookback)"

definition mr_stdDev :: "real list \<Rightarrow> real \<Rightarrow> number" where
  "mr_stdDev h lookback = js_sqrt (mr_variance h lookback)"

definition mr_zScore :: "real \<Rightarrow> real list \<Rightarrow> real \<Rightarrow> number" where
  "mr_zScore currentPrice h lookback =
     js_div (js_sub (Fin currentPrice) (mr_mean h lookback)) (mr_stdDev h lookback)"

text \<open>\<open>priceHistory.push(currentPrice)\<close>, then one \<open>shift()\<close> when the buffer is too long.\<close>

definition push_shift :: "real list \<Rightarrow> real \<Rightarrow> real \<Rightarrow> real list" where
  "push_shift h currentPrice lookback =
     (let pushed = h @ [currentPrice]
      in if real (length pushed) > lookback then tl pushed else pushed)"

definition executeMeanReversionStrategy ::
  "int \<Rightarrow> string \<Rightarrow> meanrev_params \<Rightarrow> agent \<Rightarrow> error option \<times> meanrev_params \<times> agent" where
  "executeMeanReversionStrategy now p ps s =
     (case getCurrentPrice p s of
        Inl e \<Rightarrow> (Some e, ps, s)
      | Inr currentPrice \<Rightarrow>
          (let h = push_shift (priceHistory ps) currentPrice (lookbackPeriod ps);
               ps' = ps\<lparr>priceHistory := h\<rparr>
           in if real (length h) = lookbackPeriod ps then
                (let zScore = mr_zScore currentPrice h (lookbackPeriod ps)
                 in if js_lt zScore (Fin (- stdDevThreshold ps)) then
                      (case marketBuy now p (mr_tradeAmount ps) (say [Log (MeanReversionBuy (js_abs zScore))] s) of
                         (Inl e, s') \<Rightarrow> (Some e, ps', s')
                       | (Inr _, s') \<Rightarrow> (None, ps', s'))
                    else if js_gt zScore (Fin (stdDevThreshold ps)) then
                      (case marketSell now p (mr_tradeAmount ps) (say [Log (MeanReversionSell zScore)] s) of
                         (Inl e, s') \<Rightarrow> (Some e, ps', s')
                       | (Inr _, s') \<Rightarrow> (None, ps', s'))
                    else (None, ps', s))
              else (None, ps', s)))"

text \<open>The \<open>switch\<close> of \<open>executeActiveStrategies\<close> on the strategy's type.\<close>

definition executeStrategy ::
  "int \<Rightarrow> TradingStrategy \<Rightarrow> agent \<Rightarrow> error option \<times> TradingStrategy \<times> agent" where
  "executeStrategy now strategy s =
     (case parameters strategy of
        DCA ps \<Rightarrow>
          (case executeDCAStrategy now (strategy_productId strategy) ps s of
             (e, ps', s') \<Rightarrow> (e, strategy\<lparr>parameters := DCA ps'\<rparr>, s'))
      | Grid ps \<Rightarrow>
          (case executeGridStrategy (strategy_productId strategy) ps s of
             (e, ps', s') \<Rightarrow> (e, strategy\<lparr>parameters := Grid ps'\<rparr>, s'))
      | Momentum ps \<Rightarrow>
          (case executeMomentumStrategy now (strategy_productId strategy) ps s of
             (e, ps', s') \<Rightarrow> (e, strategy\<lparr>parameters := Momentum ps'\<rparr>, s'))
      | MeanReversion ps \<Rightarrow>
          (case executeMeanReversionStrategy now (strategy_productId strategy) ps s of
             (e, ps', s') \<Rightarrow> (e, strategy\<lparr>parameters := MeanReversion ps'\<rparr>, s')))"

text \<open>
  The loop of \<open>executeActiveStrategies\<close>: each enabled strategy is evaluated inside
  \<open>try\<close>, and \<open>catch\<close> writes the error to the console.
\<close>

fun executeActiveStrategies_loop ::
  "int \<Rightarrow> (string \<times> TradingStrategy) list \<Rightarrow> agent \<Rightarrow> (string \<times> TradingStrategy) list \<times> agent" where
  "executeActiveStrategies_loop now [] s = ([], s)"
| "executeActiveStrategies_loop now ((sid, strategy) # rest) s =
     (if \<not> enabled strategy then
        (case executeActiveStrategies_loop now rest s of
           (rest', s') \<Rightarrow> ((sid, strategy) # rest', s'))
      else
        (case executeStrategy now strategy s of
           (e, strategy', s1) \<Rightarrow>
             (let s2 = (case e of None \<Rightarrow> s1 | Some err \<Rightarrow> say [Log (StrategyError sid err)] s1)
              in case executeActiveStrategies_loop now rest s2 of
                   (rest', s') \<Rightarrow> ((sid, strategy') # rest', s'))))"

definition executeActiveStrategies :: "int \<Rightarrow> agent \<Rightarrow> agent" where
  "executeActiveStrategies now s =
     (case executeActiveStrategies_loop now (strategies s) s of
        (strats, s') \<Rightarrow> s'\<lparr>strategies := strats\<rparr>)"

section \<open>The monitoring cycle\<close>

text \<open>
  The body of the \<open>setInterval\<close> callback of \<open>startMonitoring\<close>. An error thrown by
  \<open>checkPriceAlerts\<close> rejects the callback's promise: the rest of the body is skipped.
\<close>

definition monitoringCycle :: "(string \<Rightarrow> real \<times> real \<times> real) \<Rightarrow> int \<Rightarrow> agent \<Rightarrow> error option \<times> agent" where
  "monitoringCycle rnd now s =
     (case checkPriceAlerts (updateMarketData rnd now s) of
        (Some e, s') \<Rightarrow> (Some e, s')
      | (None, s') \<Rightarrow> (None, executeActiveStrategies now s'))"

text \<open>
  The calls that change the agent, as data: the caller's operations and the timer's
  cycles. After a call that throws, the agent is as the call left it.
\<close>

datatype operation =
    CreatePriceAlert string string real condition "(real \<Rightarrow> cb_result) option"
  | RemovePriceAlert string
  | CreateStrategy string string bool string parameters
  | EnableStrategy string
  | DisableStrategy string
  | ExecuteTrade int TradeConfig
  | MonitoringCycle "string \<Rightarrow> real \<times> real \<times> real" int

fun apply_operation :: "operation \<Rightarrow> agent \<Rightarrow> agent" where
  "apply_operation (CreatePriceAlert alertId p target cond cb) s = snd (createPriceAlert alertId p target cond cb s)"
| "apply_operation (RemovePriceAlert alertId) s = snd (removePriceAlert alertId s)"
| "apply_operation (CreateStrategy strategyId nm en p ps) s = snd (createStrategy strategyId nm en p ps s)"
| "apply_operation (EnableStrategy strategyId) s = snd (enableStrategy strategyId s)"
| "apply_operation (DisableStrategy strategyId) s = snd (disableStrategy strategyId s)"
| "apply_operation (ExecuteTrade now config) s = snd (executeTrade now config s)"
| "apply_operation (MonitoringCycle rnd now) s = snd (monitoringCycle rnd now s)"

fun run :: "operation list \<Rightarrow> agent \<Rightarrow> agent" where
  "run [] s = s"
| "run (opn # ops) s = run ops (apply_operation opn s)"

section \<open>Notions used in the statements\<close>

text \<open>
  The agent as the constructor leaves it, and a snapshot with a given price (for the
  concrete inputs below).
\<close>

definition initial_agent :: agent where
  "initial_agent = \<lparr>account = None, priceAlerts = [], strategies = [], marketData = Map.empty,
                     orderHistory = [], trace = []\<rparr>"

definition snapshot :: "string \<Rightarrow> real \<Rightarrow> MarketData" where
  "snapshot p x = \<lparr>md_productId = p, price = x, volume24h = 0, priceChange24h = 0, md_timestamp = 0\<rparr>"

definition feed :: "real \<Rightarrow> string \<Rightarrow> real \<times> real \<times> real" where
  "feed r p = (r, 1 / 2, 1 / 2)"

text \<open>
  The effects that belong to the alert \<open>a\<close>: its alert-triggered events and the calls
  of its callback. An alert is inactive when no entry under its id is active. An
  operation creates the alert \<open>a\<close> when the id it was given is \<open>a\<close>. A step from
  \<open>s\<close> to \<open>s'\<close> is a \<open>frame\<close> for the alerts when it leaves them as they are and
  adds no effect of the alert \<open>a\<close>.
\<close>

definition alert_effects :: "string \<Rightarrow> effect list \<Rightarrow> effect list" where
  "alert_effects a out =
     filter (\<lambda>x. case x of Emit (priceAlert i _ _ _) \<Rightarrow> i = a | Invoke i _ \<Rightarrow> i = a | _ \<Rightarrow> False) out"

definition alert_inactive :: "string \<Rightarrow> agent \<Rightarrow> bool" where
  "alert_inactive a s = list_all (\<lambda>(i, alert). i = a \<longrightarrow> \<not> active alert) (priceAlerts s)"

fun creates_alert :: "string \<Rightarrow> operation \<Rightarrow> bool" where
  "creates_alert a (CreatePriceAlert alertId p target cond cb) = (alertId = a)"
| "creates_alert a _ = False"

definition frame :: "string \<Rightarrow> agent \<Rightarrow> agent \<Rightarrow> bool" where
  "frame a s s' = (priceAlerts s' = priceAlerts s \<and> alert_effects a (trace s') = alert_effects a (trace s))"







definition alert_events :: "effect list \<Rightarrow> effect list" where
  "alert_events out =
     filter (\<lambda>x. case x of
                   Log (AlertTriggered _ _ _) \<Rightarrow> True
                 | Log (CurrentPrice _) \<Rightarrow> True
                 | Emit (priceAlert _ _ _ _) \<Rightarrow> True
                 | Invoke _ _ \<Rightarrow> True
                 | _ \<Rightarrow> False) out"

text \<open>Concrete alerts and strategies for the inputs below.\<close>

definition alert_above :: "string \<Rightarrow> real \<Rightarrow> (real \<Rightarrow> cb_result) option \<Rightarrow> string \<times> PriceAlert" where
  "alert_above aid target cb =
     (aid, \<lparr>alert_id = aid, alert_productId = ''BTC-USD'', targetPrice = target,
            condition = Above, active = True, callback = cb\<rparr>)"

definition dca_strategy :: "string \<Rightarrow> string \<Rightarrow> string \<times> TradingStrategy" where
  "dca_strategy sid p =
     (sid, \<lparr>strategy_id = sid, name = ''DCA - '' @ p, enabled = True, strategy_productId = p,
            parameters = DCA \<lparr>amountPerTrade = ''0.001'', intervalMinutes = 60, lastExecution = None\<rparr>\<rparr>)"

text \<open>
  A successful submission, as \<open>executeTrade\<close> performs it: the record made from the
  order and the current price \<open>x\<close>, and the agent after it (console line, record
  appended to the history, trade-executed event, console line). \<open>market_order\<close> is the
  order that \<open>marketBuy\<close> and \<open>marketSell\<close> submit.
\<close>

definition trade_record :: "int \<Rightarrow> TradeConfig \<Rightarrow> real \<Rightarrow> TradeDetails" where
  "trade_record now config x = TradeConfig.extend config (TradeDetails.fields now ''completed'' now x)"

definition traded :: "int \<Rightarrow> TradeConfig \<Rightarrow> real \<Rightarrow> agent \<Rightarrow> agent" where
  "traded now config x s =
     say [Log (ExecutingOrder (side config) (amount config) (productId config)),
          Emit (tradeExecuted (trade_record now config x)),
          Log (TradeExecutedAt x)]
       (s\<lparr>orderHistory := orderHistory s @ [trade_record now config x]\<rparr>)"

definition market_order :: "side \<Rightarrow> string \<Rightarrow> string \<Rightarrow> TradeConfig" where
  "market_order sd p amt =
     \<lparr>productId = p, orderType = Market, side = sd, amount = amt, limitPrice = None\<rparr>"

text \<open>
  The grid, as the statement about it reads, in double arithmetic: the step, the grid
  lines \<open>lowerPrice + k * step\<close>, and the lines (by index, \<open>0 \<le> k < gridLevels\<close>)
  whose distance from the price \<open>c\<close> is less than the step times \<open>0.1\<close>.
\<close>

definition grid_step :: "grid_params \<Rightarrow> number" where
  "grid_step ps = js_div (js_sub (Fin (upperPrice ps)) (Fin (lowerPrice ps))) (Fin (gridLevels ps))"

definition grid_line :: "grid_params \<Rightarrow> nat \<Rightarrow> number" where
  "grid_line ps k = js_add (Fin (lowerPrice ps)) (js_mul (Fin (real k)) (grid_step ps))"

definition grid_hits :: "grid_params \<Rightarrow> real \<Rightarrow> nat list" where
  "grid_hits ps c =
     filter (\<lambda>k. js_lt (js_abs (js_sub (Fin c) (grid_line ps k))) (js_mul (grid_step ps) (fl 0.1)))
       [0..<nat \<lceil>gridLevels ps\<rceil>]"

text \<open>
  DCA, as the statement about it reads: an evaluation is due when no execution time is
  recorded or the interval (minutes, compared in milliseconds) has passed since the
  recorded one. \<open>dca_fires\<close> runs the evaluator of one strategy through a list of cycles,
  each with its clock reading and the agent at that moment, and lists the readings at
  which an order was recorded.
\<close>

definition dca_due :: "int \<Rightarrow> dca_params \<Rightarrow> bool" where
  "dca_due now ps =
     (case lastExecution ps of
        None \<Rightarrow> True
      | Some t \<Rightarrow> real_of_int (now - t) \<ge> intervalMinutes ps * 60 * 1000)"

fun dca_fires :: "string \<Rightarrow> (int \<times> agent) list \<Rightarrow> dca_params \<Rightarrow> int list" where
  "dca_fires p [] ps = []"
| "dca_fires p ((t, s) # cycles) ps =
     (case executeDCAStrategy t p ps s of
        (e, ps', s') \<Rightarrow>
          (if length (orderHistory s') > length (orderHistory s) then [t] else [])
          @ dca_fires p cycles ps')"

text \<open>
  Momentum: the percentage change against the recorded price, in double arithmetic, and
  the signal of an evaluation at price \<open>c\<close> (side and percentage change), absent when
  no price is recorded (or the recorded price is \<open>0\<close>) and when the change is below
  the threshold.
\<close>

definition pctChange :: "real \<Rightarrow> real \<Rightarrow> number" where
  "pctChange c lp = js_mul (js_div (js_sub (Fin c) (Fin lp)) (Fin lp)) (Fin 100)"

definition momentum_signal :: "momentum_params \<Rightarrow> real \<Rightarrow> (side \<times> number) option" where
  "momentum_signal ps c =
     (case lastPrice ps of
        None \<Rightarrow> None
      | Some lp \<Rightarrow>
          if lp = 0 then None
          else if js_ge (js_abs (pctChange c lp)) (Fin (threshold ps))
               then (if js_gt (pctChange c lp) (Fin 0) then Some (Buy, pctChange c lp)
                     else Some (Sell, pctChange c lp))
               else None)"

definition signal_line :: "side \<Rightarrow> number \<Rightarrow> logline" where
  "signal_line sd pc = (case sd of Buy \<Rightarrow> MomentumBuySignal pc | Sell \<Rightarrow> MomentumSellSignal pc)"

text \<open>
  Mean reversion, as the statement about it reads, in double arithmetic: the mean of
  the buffer (its sum, added from the left, over its length), the population variance
  and standard deviation around that mean, the z-score of the price, and the signal of
  an evaluation over the buffer \<open>h\<close>: none until the buffer holds \<open>lookbackPeriod\<close>
  prices, buy below \<open>-threshold\<close>, sell above \<open>threshold\<close>.
\<close>

definition mean :: "real list \<Rightarrow> number" where
  "mean h = js_div (foldl (\<lambda>a b. js_add a (Fin b)) (Fin 0) h) (Fin (real (length h)))"

definition variance :: "real list \<Rightarrow> number" where
  "variance h =
     js_div (foldl (\<lambda>a b. js_add a (js_sq (js_sub (Fin b) (mean h)))) (Fin 0) h)
            (Fin (real (length h)))"

definition std_dev :: "real list \<Rightarrow> number" where
  "std_dev h = js_sqrt (variance h)"

definition zscore :: "real list \<Rightarrow> real \<Rightarrow> number" where
  "zscore h c = js_div (js_sub (Fin c) (mean h)) (std_dev h)"

definition meanrev_signal :: "meanrev_params \<Rightarrow> real list \<Rightarrow> real \<Rightarrow> (side \<times> number) option" where
  "meanrev_signal ps h c =
     (if real (length h) = lookbackPeriod ps then
        (if js_lt (zscore h c) (Fin (- stdDevThreshold ps)) then Some (Buy, zscore h c)
         else if js_gt (zscore h c) (Fin (stdDevThreshold ps)) then Some (Sell, zscore h c)
         else None)
      else None)"

definition meanrev_line :: "side \<Rightarrow> number \<Rightarrow> logline" where
  "meanrev_line sd z =
     (case sd of Buy \<Rightarrow> MeanReversionBuy (js_abs z) | Sell \<Rightarrow> MeanReversionSell z)"

text \<open>
  The population standard deviation of a buffer over the reals, with no rounding: the
  quantity a statement about "zero standard deviation" refers to.
\<close>

definition population_std_dev :: "real list \<Rightarrow> real" where
  "population_std_dev h =
     sqrt ((\<Sum>x\<leftarrow>h. (x - sum_list h / real (length h))\<^sup>2) / real (length h))"

text \<open>
  More concrete inputs. \<open>double_2503_7\<close> is the double nearest to \<open>2503.7\<close>, the
  value of the literal \<open>2503.7\<close>.
\<close>

definition eth_grid :: grid_params where
  "eth_grid = \<lparr>lowerPrice = 2000, upperPrice = 3000, gridLevels = 10, amountPerLevel = ''0.05'',
               activeLevels = []\<rparr>"

definition sol_momentum :: "real \<Rightarrow> real \<Rightarrow> momentum_params" where
  "sol_momentum thr lp = \<lparr>threshold = thr, tradeAmount = ''1'', lastPrice = Some lp\<rparr>"

definition btc_dca :: "int option \<Rightarrow> dca_params" where
  "btc_dca t = \<lparr>amountPerTrade = ''0.001'', intervalMinutes = 60, lastExecution = t\<rparr>"

definition trading_agent :: "string \<Rightarrow> real \<Rightarrow> agent" where
  "trading_agent p x = initial_agent\<lparr>account := Some ''0xA'', marketData := [p \<mapsto> snapshot p x]\<rparr>"

definition btc_meanrev :: "real \<Rightarrow> real \<Rightarrow> real list \<Rightarrow> meanrev_params" where
  "btc_meanrev n thr h = \<lparr>lookbackPeriod = n, stdDevThreshold = thr, mr_tradeAmount = ''1'', priceHistory = h\<rparr>"

definition double_2503_7 :: real where
  "double_2503_7 = 5505694524925542 / 2 ^ 41"

section \<open>Lemmas\<close>

subsection \<open>Rounding\<close>

lemma round_even_of_int [simp]: "round_even (of_int z) = z"
  by (simp add: round_even_def)

lemma round_even_bound:
  assumes "\<bar>y\<bar> < of_int b"
  shows "\<bar>round_even y\<bar> \<le> b"
proof -
  have "\<lfloor>y\<rfloor> < b" using assms by (simp add: floor_less_iff abs_less_iff)
  moreover have "- b \<le> \<lfloor>y\<rfloor>" using assms by (simp add: le_floor_iff abs_less_iff)
  ultimately show ?thesis
    by (auto simp: round_even_def Let_def)
qed

lemma powr_neg_int: "(2::real) powr of_int (- int j) = 1 / 2 ^ j"
  using powr_realpow [of "2::real" j] by (simp add: powr_minus divide_simps)

lemma abs_div_pow2_le: "\<bar>a / 2 ^ n\<bar> \<le> \<bar>a\<bar>"
  for a :: real
proof -
  have "(1::real) \<le> 2 ^ n" by simp
  then have "\<bar>a\<bar> / 2 ^ n \<le> \<bar>a\<bar> / 1"
    by (intro divide_left_mono) auto
  then show ?thesis by (simp add: abs_divide)
qed

lemma floor_log2:
  assumes "2 ^ 52 \<le> \<bar>x\<bar> * 2 ^ n" "\<bar>x\<bar> * 2 ^ n < 2 ^ 53"
  shows "\<lfloor>log 2 \<bar>x\<bar>\<rfloor> = 52 - int n"
proof -
  have pos: "0 < \<bar>x\<bar>" using assms(1) by (cases "x = 0") auto
  have p: "(2::real) powr (of_int (52 - int n)) = 2 ^ 52 / 2 ^ n"
    using powr_realpow [of "2::real" 52] powr_realpow [of "2::real" n]
    by (simp add: powr_diff)
  have q: "(2::real) powr (of_int (52 - int n + 1)) = 2 ^ 53 / 2 ^ n"
    using powr_realpow [of "2::real" 53] powr_realpow [of "2::real" n]
    by (simp add: powr_diff)
  have "2 powr (of_int (52 - int n)) \<le> \<bar>x\<bar>"
    unfolding p using assms(1) by (simp add: divide_le_eq)
  moreover have "\<bar>x\<bar> < 2 powr (of_int (52 - int n + 1))"
    unfolding q using assms(2) by (simp add: less_divide_eq)
  ultimately show ?thesis
    using floor_log_eq_powr_iff [of "\<bar>x\<bar>" 2 "52 - int n"] pos by simp
qed

text \<open>
  Rounding a number with 53 significant bits at the scale \<open>2\<^sup>-\<^sup>n\<close>: the result is the
  nearest multiple of \<open>2\<^sup>-\<^sup>n\<close>.
\<close>

lemma fl_eval:
  assumes "2 ^ 52 \<le> \<bar>x\<bar> * 2 ^ n" "\<bar>x\<bar> * 2 ^ n < 2 ^ 53" "n \<le> 1074"
  shows "fl x = Fin (of_int (round_even (x * 2 ^ n)) / 2 ^ n)"
proof -
  have nz: "x \<noteq> 0" using assms(1) by auto
  have e: "max (\<lfloor>log 2 \<bar>x\<bar>\<rfloor> - 52) (- 1074) = - int n"
    using floor_log2 [OF assms(1,2)] assms(3) by simp
  note pw = powr_neg_int [of n]
  have "\<bar>x * 2 ^ n\<bar> < of_int (2 ^ 53)" using assms(2) by (simp add: abs_mult)
  then have "\<bar>round_even (x * 2 ^ n)\<bar> \<le> 2 ^ 53" by (rule round_even_bound)
  then have "\<bar>real_of_int (round_even (x * 2 ^ n))\<bar> \<le> 2 ^ 53"
    by (metis of_int_abs of_int_le_iff of_int_numeral of_int_power)
  moreover have "\<bar>real_of_int (round_even (x * 2 ^ n)) / 2 ^ n\<bar> \<le>
      \<bar>real_of_int (round_even (x * 2 ^ n))\<bar>"
    by (rule abs_div_pow2_le)
  ultimately have "\<bar>real_of_int (round_even (x * 2 ^ n)) / 2 ^ n\<bar> \<le> 2 ^ 53"
    by linarith
  moreover have "(2::real) ^ 53 < 2 ^ 1024" by simp
  ultimately have small: "\<not> 2 ^ 1024 \<le> \<bar>real_of_int (round_even (x * 2 ^ n)) / 2 ^ n\<bar>"
    by linarith
  have r: "of_int (round_even (x / 2 powr of_int (- int n))) * 2 powr of_int (- int n) =
      real_of_int (round_even (x * 2 ^ n)) / 2 ^ n"
    unfolding pw by simp
  show ?thesis
    unfolding fl_def Let_def e r using nz small by simp
qed

text \<open>A number \<open>m / 2\<^sup>n\<close> with \<open>\<bar>m\<bar> < 2\<^sup>5\<^sup>3\<close> is a double: rounding leaves it as it is.\<close>

lemma fl_dyadic:
  assumes "\<bar>m\<bar> < 2 ^ 53" "n \<le> 1074"
  shows "fl (of_int m / 2 ^ n) = Fin (of_int m / 2 ^ n)"
proof (cases "m = 0")
  case True
  then show ?thesis by (simp add: fl_def)
next
  case False
  define x :: real where "x = of_int m / 2 ^ n"
  have nz: "x \<noteq> 0" using False by (simp add: x_def)
  have pos: "0 < \<bar>x\<bar>" using nz by simp
  have am: "\<bar>real_of_int m\<bar> < 2 ^ 53"
    using assms(1) by (metis of_int_abs of_int_less_iff of_int_numeral of_int_power)
  have q: "(2::real) powr (of_int (52 - int n + 1)) = 2 ^ 53 / 2 ^ n"
    using powr_realpow [of "2::real" 53] powr_realpow [of "2::real" n]
    by (simp add: powr_diff)
  have "\<bar>x\<bar> < 2 powr (of_int (52 - int n + 1))"
    unfolding q x_def using am by (simp add: abs_divide divide_strict_right_mono)
  then have "\<not> 2 powr (of_int (52 - int n + 1)) \<le> \<bar>x\<bar>" by simp
  have L: "\<lfloor>log 2 \<bar>x\<bar>\<rfloor> \<le> 52 - int n"
  proof (rule ccontr)
    assume "\<not> \<lfloor>log 2 \<bar>x\<bar>\<rfloor> \<le> 52 - int n"
    then have "52 - int n + 1 \<le> \<lfloor>log 2 \<bar>x\<bar>\<rfloor>" by simp
    then have "of_int (52 - int n + 1) \<le> log 2 \<bar>x\<bar>" by (simp only: le_floor_iff)
    then have "2 powr (of_int (52 - int n + 1)) \<le> \<bar>x\<bar>"
      using pos by (simp add: le_log_iff)
    with \<open>\<bar>x\<bar> < 2 powr (of_int (52 - int n + 1))\<close> show False by simp
  qed
  define e where "e = max (\<lfloor>log 2 \<bar>x\<bar>\<rfloor> - 52) (- 1074)"
  have "e \<le> - int n" using L assms(2) by (simp add: e_def)
  then obtain k where k: "e = - int (n + k)"
    by (metis add.inverse_inverse int_ops(5) neg_le_iff_le nonneg_int_cases zle_iff_zadd)
  have pw: "(2::real) powr of_int e = 1 / 2 ^ (n + k)"
    unfolding k by (rule powr_neg_int)
  have sc: "x / 2 powr of_int e = of_int (m * 2 ^ k)"
    by (simp add: pw x_def power_add)
  have r: "of_int (round_even (x / 2 powr of_int e)) * 2 powr of_int e = x"
    unfolding sc round_even_of_int by (simp add: pw x_def power_add)
  have "\<bar>x\<bar> \<le> \<bar>real_of_int m\<bar>"
    unfolding x_def by (rule abs_div_pow2_le)
  with am have small: "\<not> (2::real) ^ 1024 \<le> \<bar>x\<bar>" by simp
  show ?thesis
    unfolding x_def [symmetric] fl_def Let_def e_def [symmetric] r using nz small by simp
qed

lemma fl_of_int: "\<bar>m\<bar> < 2 ^ 53 \<Longrightarrow> fl (of_int m) = Fin (of_int m)"
  using fl_dyadic [of m 0] by simp

lemma fl_numeral [simp]: "numeral k < (2::int) ^ 53 \<Longrightarrow> fl (numeral k) = Fin (numeral k)"
  using fl_of_int [of "numeral k"] by simp

lemma fl_neg_numeral [simp]:
  "numeral k < (2::int) ^ 53 \<Longrightarrow> fl (- numeral k) = Fin (- numeral k)"
  using fl_of_int [of "- numeral k"] by simp

lemma fl_0 [simp]: "fl 0 = Fin 0"
  by (simp add: fl_def)

lemma fl_1 [simp]: "fl 1 = Fin 1"
  using fl_of_int [of 1] by simp

lemma fl_neg_1 [simp]: "fl (- 1) = Fin (- 1)"
  using fl_of_int [of "- 1"] by simp

text \<open>The literal \<open>0.1\<close>, and a tenth of a hundred.\<close>

lemma fl_tenth: "fl 0.1 = Fin (3602879701896397 / 2 ^ 55)"
  by (subst fl_eval [where n = 56]) (simp_all add: round_even_def)

subsection \<open>Market data, trades and frames\<close>

lemma say_fields [simp]:
  "account (say out s) = account s"
  "priceAlerts (say out s) = priceAlerts s"
  "strategies (say out s) = strategies s"
  "marketData (say out s) = marketData s"
  "orderHistory (say out s) = orderHistory s"
  "trace (say out s) = trace s @ out"
  by (simp_all add: say_def)

lemma getCurrentPrice_say [simp]: "getCurrentPrice p (say out s) = getCurrentPrice p s"
  by (simp add: getCurrentPrice_def getMarketData_def)

lemma getCurrentPrice_Some: "marketData s p = Some d \<Longrightarrow> getCurrentPrice p s = Inr (price d)"
  by (simp add: getCurrentPrice_def getMarketData_def)

lemma getCurrentPrice_None: "marketData s p = None \<Longrightarrow> getCurrentPrice p s = Inl (NoMarketDataAvailable p)"
  by (simp add: getCurrentPrice_def getMarketData_def)

lemma executeTrade_not_initialized:
  "account s = None \<Longrightarrow> executeTrade now config s = (Inl AgentNotInitialized, s)"
  by (simp add: executeTrade_def)

lemma executeTrade_no_snapshot:
  "account s = Some a \<Longrightarrow> marketData s (productId config) = None \<Longrightarrow>
   executeTrade now config s =
     (Inl (NoMarketDataAvailable (productId config)),
      say [Log (ExecutingOrder (side config) (amount config) (productId config))] s)"
  by (simp add: executeTrade_def getCurrentPrice_None)

lemma executeTrade_success:
  "account s = Some a \<Longrightarrow> marketData s (productId config) = Some d \<Longrightarrow>
   executeTrade now config s =
     (Inr (TradeConfig.extend config (TradeDetails.fields now ''completed'' now (price d))),
      say [Log (ExecutingOrder (side config) (amount config) (productId config)),
           Emit (tradeExecuted (TradeConfig.extend config (TradeDetails.fields now ''completed'' now (price d)))),
           Log (TradeExecutedAt (price d))]
        (s\<lparr>orderHistory := orderHistory s @
              [TradeConfig.extend config (TradeDetails.fields now ''completed'' now (price d))]\<rparr>))"
  by (simp add: executeTrade_def getCurrentPrice_Some Let_def say_def)

lemma alert_effects_append [simp]: "alert_effects a (xs @ ys) = alert_effects a xs @ alert_effects a ys"
  by (simp add: alert_effects_def)

lemma alert_effects_Log [simp]: "alert_effects a (Log l # xs) = alert_effects a xs"
  by (simp add: alert_effects_def)

lemma alert_effects_trade [simp]: "alert_effects a (Emit (tradeExecuted td) # xs) = alert_effects a xs"
  by (simp add: alert_effects_def)

lemma alert_effects_Nil [simp]: "alert_effects a [] = []"
  by (simp add: alert_effects_def)

lemma frame_refl [simp]: "frame a s s"
  by (simp add: frame_def)

lemma frame_trans: "frame a s s1 \<Longrightarrow> frame a s1 s2 \<Longrightarrow> frame a s s2"
  by (simp add: frame_def)

lemma frame_say_Log [simp]: "frame a s (say [Log l] s)"
  by (simp add: frame_def)

lemma frame_executeTrade: "executeTrade now config s = (r, s') \<Longrightarrow> frame a s s'"
  by (auto simp: executeTrade_def frame_def Let_def say_def split: option.splits sum.splits)

lemma frame_marketBuy: "marketBuy now p amt s = (r, s') \<Longrightarrow> frame a s s'"
  unfolding marketBuy_def by (rule frame_executeTrade)

lemma frame_marketSell: "marketSell now p amt s = (r, s') \<Longrightarrow> frame a s s'"
  unfolding marketSell_def by (rule frame_executeTrade)

lemma frame_say_marketBuy: "marketBuy now p amt (say [Log l] s) = (r, s') \<Longrightarrow> frame a s s'"
  by (rule frame_trans [OF frame_say_Log frame_marketBuy])

lemma frame_say_marketSell: "marketSell now p amt (say [Log l] s) = (r, s') \<Longrightarrow> frame a s s'"
  by (rule frame_trans [OF frame_say_Log frame_marketSell])

lemma frame_DCA: "executeDCAStrategy now p ps s = (e, ps', s') \<Longrightarrow> frame a s s'"
proof -
  assume ex: "executeDCAStrategy now p ps s = (e, ps', s')"
  obtain r s1 where mb:
    "marketBuy now p (amountPerTrade ps) (say [Log (ExecutingDCA (amountPerTrade ps) p)] s) = (r, s1)"
    by (cases "marketBuy now p (amountPerTrade ps) (say [Log (ExecutingDCA (amountPerTrade ps) p)] s)")
  have "frame a s s1" using mb by (rule frame_say_marketBuy)
  with ex mb show ?thesis
    by (cases r) (auto simp: executeDCAStrategy_def split: if_splits)
qed

lemma frame_apply_call: "frame a s (apply_call c s)"
proof (cases c)
  case (CallExecuteTrade now config)
  obtain r s' where ex: "executeTrade now config s = (r, s')"
    by (cases "executeTrade now config s")
  from frame_executeTrade [OF ex, of a] CallExecuteTrade ex show ?thesis by simp
next
  case (CallCreateStrategy strategyId nm en p ps)
  then show ?thesis by (simp add: createStrategy_def frame_def Let_def)
next
  case (CallEnableStrategy strategyId)
  then show ?thesis by (simp add: enableStrategy_def frame_def split: option.splits)
next
  case (CallDisableStrategy strategyId)
  then show ?thesis by (simp add: disableStrategy_def frame_def split: option.splits)
qed

lemma frame_run_callback: "run_callback r s = (e, s') \<Longrightarrow> frame a s s'"
proof (induction r arbitrary: s)
  case Returned
  then show ?case by simp
next
  case Thrown
  then show ?case by simp
next
  case (Calls c r)
  from Calls.prems have "run_callback r (apply_call c s) = (e, s')" by simp
  then have "frame a (apply_call c s) s'" by (rule Calls.IH)
  with frame_apply_call [of a s c] show ?case by (rule frame_trans)
qed

lemma trace_gridLoop: "alert_effects a (gridLoop lower g n c i) = []"
proof (induction lower g n c i rule: gridLoop.induct)
  case (1 lower gridSize levels currentPrice i)
  then show ?case
    by (subst gridLoop.simps) (simp add: Let_def)
qed

lemma frame_Grid: "executeGridStrategy p ps s = (e, ps', s') \<Longrightarrow> frame a s s'"
  by (cases "getCurrentPrice p s")
     (auto simp: executeGridStrategy_def frame_def trace_gridLoop Let_def)

lemma less_nat_ceiling: "(i < nat \<lceil>levels\<rceil>) = (real i < levels)"
  by (simp add: zless_nat_eq_int_zless less_ceiling_iff)

lemma gridLoop_filter:
  "gridLoop lower g n c i =
     map (\<lambda>k. Log (GridLevelHit (js_add (Fin lower) (js_mul (Fin (real k)) g))))
       (filter (\<lambda>k. js_lt (js_abs (js_sub (Fin c) (js_add (Fin lower) (js_mul (Fin (real k)) g))))
                        (js_mul g (fl 0.1)))
          [i..<nat \<lceil>n\<rceil>])"
proof (induction lower g n c i rule: gridLoop.induct)
  case (1 lower gridSize levels currentPrice i)
  show ?case
  proof (cases "real i < levels")
    case True
    then have "i < nat \<lceil>levels\<rceil>"
      by (simp add: less_nat_ceiling)
    then have u: "[i..<nat \<lceil>levels\<rceil>] = i # [Suc i..<nat \<lceil>levels\<rceil>]"
      by (simp add: upt_conv_Cons)
    show ?thesis
      by (subst gridLoop.simps) (simp add: True "1.IH" [OF True refl] u Let_def)
  next
    case False
    with less_nat_ceiling [of i levels] have "nat \<lceil>levels\<rceil> \<le> i"
      by (metis not_less)
    then have e: "[i..<nat \<lceil>levels\<rceil>] = []" by (rule upt_conv_Nil)
    show ?thesis
      unfolding e by (subst gridLoop.simps) (simp add: False)
  qed
qed

lemma frame_Momentum: "executeMomentumStrategy now p ps s = (e, ps', s') \<Longrightarrow> frame a s s'"
proof -
  assume ex: "executeMomentumStrategy now p ps s = (e, ps', s')"
  show ?thesis
  proof (cases "getCurrentPrice p s")
    case (Inl err)
    with ex show ?thesis by (simp add: executeMomentumStrategy_def)
  next
    case (Inr c)
    show ?thesis
    proof (cases "lastPrice ps")
      case None
      with ex Inr show ?thesis by (simp add: executeMomentumStrategy_def)
    next
      case (Some lp)
      define pc where "pc = js_mul (js_div (js_sub (Fin c) (Fin lp)) (Fin lp)) (Fin 100)"
      obtain r1 s1 where mb:
        "marketBuy now p (tradeAmount ps) (say [Log (MomentumBuySignal pc)] s) = (r1, s1)"
        by (cases "marketBuy now p (tradeAmount ps) (say [Log (MomentumBuySignal pc)] s)")
      obtain r2 s2 where ms:
        "marketSell now p (tradeAmount ps) (say [Log (MomentumSellSignal pc)] s) = (r2, s2)"
        by (cases "marketSell now p (tradeAmount ps) (say [Log (MomentumSellSignal pc)] s)")
      have f1: "frame a s s1" using mb by (rule frame_say_marketBuy)
      have f2: "frame a s s2" using ms by (rule frame_say_marketSell)
      from ex Inr Some mb ms f1 f2 show ?thesis
        by (cases r1; cases r2)
           (auto simp: executeMomentumStrategy_def Let_def pc_def split: if_splits)
    qed
  qed
qed

lemma frame_MeanReversion: "executeMeanReversionStrategy now p ps s = (e, ps', s') \<Longrightarrow> frame a s s'"
proof -
  assume ex: "executeMeanReversionStrategy now p ps s = (e, ps', s')"
  show ?thesis
  proof (cases "getCurrentPrice p s")
    case (Inl err)
    with ex show ?thesis by (simp add: executeMeanReversionStrategy_def)
  next
    case (Inr c)
    define z where "z = mr_zScore c (push_shift (priceHistory ps) c (lookbackPeriod ps)) (lookbackPeriod ps)"
    obtain r1 s1 where mb:
      "marketBuy now p (mr_tradeAmount ps) (say [Log (MeanReversionBuy (js_abs z))] s) = (r1, s1)"
      by (cases "marketBuy now p (mr_tradeAmount ps) (say [Log (MeanReversionBuy (js_abs z))] s)")
    obtain r2 s2 where ms:
      "marketSell now p (mr_tradeAmount ps) (say [Log (MeanReversionSell z)] s) = (r2, s2)"
      by (cases "marketSell now p (mr_tradeAmount ps) (say [Log (MeanReversionSell z)] s)")
    have f1: "frame a s s1" using mb by (rule frame_say_marketBuy)
    have f2: "frame a s s2" using ms by (rule frame_say_marketSell)
    from ex Inr mb ms f1 f2 show ?thesis
      by (cases r1; cases r2)
         (auto simp: executeMeanReversionStrategy_def Let_def z_def split: if_splits)
  qed
qed

lemma frame_executeStrategy: "executeStrategy now strategy s = (e, strategy', s') \<Longrightarrow> frame a s s'"
proof (cases "parameters strategy")
  case (DCA ps)
  assume "executeStrategy now strategy s = (e, strategy', s')"
  with DCA show ?thesis
    by (cases "executeDCAStrategy now (strategy_productId strategy) ps s")
       (auto simp: executeStrategy_def dest: frame_DCA)
next
  case (Grid ps)
  assume "executeStrategy now strategy s = (e, strategy', s')"
  with Grid show ?thesis
    by (cases "executeGridStrategy (strategy_productId strategy) ps s")
       (auto simp: executeStrategy_def dest: frame_Grid)
next
  case (Momentum ps)
  assume "executeStrategy now strategy s = (e, strategy', s')"
  with Momentum show ?thesis
    by (cases "executeMomentumStrategy now (strategy_productId strategy) ps s")
       (auto simp: executeStrategy_def dest: frame_Momentum)
next
  case (MeanReversion ps)
  assume "executeStrategy now strategy s = (e, strategy', s')"
  with MeanReversion show ?thesis
    by (cases "executeMeanReversionStrategy now (strategy_productId strategy) ps s")
       (auto simp: executeStrategy_def dest: frame_MeanReversion)
qed

lemma frame_strategies_loop:
  "executeActiveStrategies_loop now strats s = (strats', s') \<Longrightarrow> frame a s s'"
proof (induction strats arbitrary: s strats' s')
  case Nil
  then show ?case by simp
next
  case (Cons x rest)
  obtain sid strategy where x: "x = (sid, strategy)" by (cases x)
  show ?case
  proof (cases "enabled strategy")
    case False
    obtain rest' s3 where lp: "executeActiveStrategies_loop now rest s = (rest', s3)"
      by (cases "executeActiveStrategies_loop now rest s")
    have "frame a s s3" using lp by (rule Cons.IH)
    moreover have "s' = s3" using Cons.prems x False lp by simp
    ultimately show ?thesis by simp
  next
    case True
    obtain e strategy' s1 where ex: "executeStrategy now strategy s = (e, strategy', s1)"
      by (cases "executeStrategy now strategy s")
    define s2 where "s2 = (case e of None \<Rightarrow> s1 | Some err \<Rightarrow> say [Log (StrategyError sid err)] s1)"
    have f1: "frame a s s1" using ex by (rule frame_executeStrategy)
    have f2: "frame a s1 s2" by (simp add: s2_def split: option.splits)
    obtain rest' s3 where lp: "executeActiveStrategies_loop now rest s2 = (rest', s3)"
      by (cases "executeActiveStrategies_loop now rest s2")
    have f3: "frame a s2 s3" using lp by (rule Cons.IH)
    have "s' = s3" using Cons.prems x True ex lp by (simp add: s2_def Let_def)
    with f1 f2 f3 show ?thesis by (blast intro: frame_trans)
  qed
qed

lemma executeActiveStrategies_alerts:
  "priceAlerts (executeActiveStrategies now s) = priceAlerts s \<and>
   alert_effects a (trace (executeActiveStrategies now s)) = alert_effects a (trace s)"
proof -
  obtain strats s' where lp: "executeActiveStrategies_loop now (strategies s) s = (strats, s')"
    by (cases "executeActiveStrategies_loop now (strategies s) s")
  from frame_strategies_loop [OF lp, of a] show ?thesis
    by (simp add: executeActiveStrategies_def lp frame_def)
qed

lemma updateMarketData_fields [simp]:
  "priceAlerts (updateMarketData rnd now s) = priceAlerts s"
  "trace (updateMarketData rnd now s) = trace s"
  "account (updateMarketData rnd now s) = account s"
  "strategies (updateMarketData rnd now s) = strategies s"
  "orderHistory (updateMarketData rnd now s) = orderHistory s"
  by (simp_all add: updateMarketData_def mockProducts_def split: prod.splits)

lemma list_all_update:
  "list_all P al \<Longrightarrow> P (k, v) \<Longrightarrow> list_all P (AList.update k v al)"
  by (induction al) auto

lemma list_all_delete: "list_all P al \<Longrightarrow> list_all P (AList.delete k al)"
  by (induction al) auto

lemma alerts_loop_inactive:
  "checkPriceAlerts_loop al s = (e, al', s') \<Longrightarrow>
   list_all (\<lambda>(i, alert). i = a \<longrightarrow> \<not> active alert) al \<Longrightarrow>
   list_all (\<lambda>(i, alert). i = a \<longrightarrow> \<not> active alert) al' \<and>
   alert_effects a (trace s') = alert_effects a (trace s)"
proof (induction al arbitrary: s e al' s')
  case Nil
  then show ?case by simp
next
  case (Cons x rest)
  obtain aid alert where x: "x = (aid, alert)" by (cases x)
  have rest_ok: "list_all (\<lambda>(i, alert). i = a \<longrightarrow> \<not> active alert) rest"
    using Cons.prems(2) by simp
  have step: "\<And>t e1 al1 s1. checkPriceAlerts_loop rest t = (e1, al1, s1) \<Longrightarrow>
     list_all (\<lambda>(i, alert). i = a \<longrightarrow> \<not> active alert) al1 \<and>
     alert_effects a (trace s1) = alert_effects a (trace t)"
    using Cons.IH rest_ok by blast
  show ?case
  proof (cases "active alert")
    case False
    obtain e1 al1 s1 where r: "checkPriceAlerts_loop rest s = (e1, al1, s1)"
      by (cases "checkPriceAlerts_loop rest s")
    from step [OF r] False Cons.prems x r show ?thesis
      by (auto simp: keep_def)
  next
    case True
    with Cons.prems(2) x have ne: "aid \<noteq> a" by auto
    show ?thesis
    proof (cases "getMarketData (alert_productId alert) s")
      case None
      obtain e1 al1 s1 where r: "checkPriceAlerts_loop rest s = (e1, al1, s1)"
        by (cases "checkPriceAlerts_loop rest s")
      from step [OF r] True None ne Cons.prems x r show ?thesis
        by (auto simp: keep_def)
    next
      case (Some d)
      show ?thesis
      proof (cases "triggered alert d")
        case False
        obtain e1 al1 s1 where r: "checkPriceAlerts_loop rest s = (e1, al1, s1)"
          by (cases "checkPriceAlerts_loop rest s")
        from step [OF r] True Some False ne Cons.prems x r show ?thesis
          by (auto simp: keep_def)
      next
        case trig: True
        define s1 where "s1 = say [Log (AlertTriggered (alert_productId alert) (condition alert) (targetPrice alert)),
                              Log (CurrentPrice (price d)),
                              Emit (priceAlert aid (alert_productId alert) (price d) (targetPrice alert))] s"
        have e1: "alert_effects a (trace s1) = alert_effects a (trace s)"
          using ne by (simp add: s1_def alert_effects_def)
        show ?thesis
        proof (cases "callback alert")
          case None
          obtain e2 al2 s2 where r: "checkPriceAlerts_loop rest s1 = (e2, al2, s2)"
            by (cases "checkPriceAlerts_loop rest s1")
          from step [OF r] e1 True Some trig None ne Cons.prems x r show ?thesis
            by (auto simp: keep_def s1_def Let_def)
        next
          case (Some cb)
          define s2 where "s2 = say [Invoke aid (price d)] s1"
          have e2: "alert_effects a (trace s2) = alert_effects a (trace s)"
            using ne e1 by (simp add: s2_def alert_effects_def)
          obtain e3 s3 where rc: "run_callback (cb (price d)) s2 = (e3, s3)"
            by (cases "run_callback (cb (price d)) s2")
          have e3: "alert_effects a (trace s3) = alert_effects a (trace s)"
            using frame_run_callback [OF rc, of a] e2 by (simp add: frame_def)
          show ?thesis
          proof (cases e3)
            case (Some err)
            from e3 True \<open>getMarketData (alert_productId alert) s = Some d\<close> trig
              \<open>callback alert = Some cb\<close> rc Some ne Cons.prems x show ?thesis
              by (auto simp: s1_def s2_def Let_def)
          next
            case None
            obtain e4 al4 s4 where r: "checkPriceAlerts_loop rest s3 = (e4, al4, s4)"
              by (cases "checkPriceAlerts_loop rest s3")
            from step [OF r] e3 True \<open>getMarketData (alert_productId alert) s = Some d\<close> trig
              \<open>callback alert = Some cb\<close> rc None ne Cons.prems x r show ?thesis
              by (auto simp: keep_def s1_def s2_def Let_def)
          qed
        qed
      qed
    qed
  qed
qed

lemma checkPriceAlerts_inactive:
  "alert_inactive a s \<Longrightarrow>
   alert_inactive a (snd (checkPriceAlerts s)) \<and>
   alert_effects a (trace (snd (checkPriceAlerts s))) = alert_effects a (trace s)"
proof -
  assume h: "alert_inactive a s"
  obtain e al' s' where r: "checkPriceAlerts_loop (priceAlerts s) s = (e, al', s')"
    by (cases "checkPriceAlerts_loop (priceAlerts s) s")
  from alerts_loop_inactive [OF r, of a] h show ?thesis
    by (simp add: checkPriceAlerts_def r alert_inactive_def)
qed

lemma step_inactive:
  assumes "alert_inactive a s" "\<not> creates_alert a opn"
  shows "alert_inactive a (apply_operation opn s) \<and>
         alert_effects a (trace (apply_operation opn s)) = alert_effects a (trace s)"
proof (cases opn)
  case (CreatePriceAlert alertId p target cond cb)
  with assms show ?thesis
    by (simp add: createPriceAlert_def alert_inactive_def Let_def list_all_update)
next
  case (RemovePriceAlert alertId)
  with assms show ?thesis
    by (simp add: removePriceAlert_def alert_inactive_def list_all_delete)
next
  case (CreateStrategy strategyId nm en p ps)
  with assms show ?thesis
    by (simp add: createStrategy_def alert_inactive_def Let_def)
next
  case (EnableStrategy strategyId)
  with assms show ?thesis
    by (simp add: enableStrategy_def alert_inactive_def split: option.splits)
next
  case (DisableStrategy strategyId)
  with assms show ?thesis
    by (simp add: disableStrategy_def alert_inactive_def split: option.splits)
next
  case (ExecuteTrade now config)
  obtain r s' where ex: "executeTrade now config s = (r, s')"
    by (cases "executeTrade now config s")
  from frame_executeTrade [OF ex, of a] assms ExecuteTrade ex show ?thesis
    by (simp add: frame_def alert_inactive_def)
next
  case (MonitoringCycle rnd now)
  define s0 where "s0 = updateMarketData rnd now s"
  have i0: "alert_inactive a s0" using assms(1) by (simp add: s0_def alert_inactive_def)
  obtain e s1 where c: "checkPriceAlerts s0 = (e, s1)" by (cases "checkPriceAlerts s0")
  from checkPriceAlerts_inactive [OF i0] c
  have i1: "alert_inactive a s1" and t1: "alert_effects a (trace s1) = alert_effects a (trace s)"
    by (simp_all add: s0_def)
  show ?thesis
  proof (cases e)
    case None
    with MonitoringCycle c i1 t1 executeActiveStrategies_alerts [of now s1 a] show ?thesis
      by (simp add: monitoringCycle_def s0_def [symmetric] alert_inactive_def)
  next
    case (Some err)
    with MonitoringCycle c i1 t1 show ?thesis
      by (simp add: monitoringCycle_def s0_def [symmetric])
  qed
qed

subsection \<open>The scan of the alerts\<close>

lemma getMarketData_say [simp]: "getMarketData p (say out s) = getMarketData p s"
  by (simp add: getMarketData_def)

lemma say_say [simp]: "say ys (say xs s) = say (xs @ ys) s"
  by (simp add: say_def)

lemma say_Nil [simp]: "say [] s = s"
  by (simp add: say_def)

lemma alert_events_append [simp]: "alert_events (xs @ ys) = alert_events xs @ alert_events ys"
  by (simp add: alert_events_def)

lemma alert_events_Nil [simp]: "alert_events [] = []"
  by (simp add: alert_events_def)




subsection \<open>An inactive alert stays inactive\<close>

text \<open>
  Once the \<open>active\<close> flag of an alert is false it stays false under every sequence of
  operations and monitoring cycles (in which no newly created alert is given its id),
  and no further alert-triggered event or callback call is made for it.
\<close>

lemma inactive_alert_stays_inactive:
  assumes "alert_inactive a s" "list_all (\<lambda>opn. \<not> creates_alert a opn) ops"
  shows "alert_inactive a (run ops s) \<and>
         alert_effects a (trace (run ops s)) = alert_effects a (trace s)"
  using assms
proof (induction ops arbitrary: s)
  case Nil
  then show ?case by simp
next
  case (Cons opn ops)
  from Cons.prems have st: "alert_inactive a (apply_operation opn s) \<and>
         alert_effects a (trace (apply_operation opn s)) = alert_effects a (trace s)"
    by (intro step_inactive) simp_all
  from Cons.IH [of "apply_operation opn s"] st Cons.prems(2) show ?case by simp
qed

section \<open>The claims\<close>

text \<open>
  C1. A triggered alert is not one-shot when its callback throws: the scan sets
  \<open>active\<close> to false only after the callback has returned, so an alert whose
  callback throws stays active and triggers again in the next cycle. Over two cycles
  (prices \<open>50000\<close> and \<open>55000\<close>, target \<open>45000\<close>) the alert-triggered event of the
  same alert is emitted twice, and the alert is still active. (An alert whose flag has
  become false does stay inactive and silent: \<open>inactive_alert_stays_inactive\<close>.)
\<close>

theorem triggered_alert_fires_again:
  "emitted (trace (run [MonitoringCycle (feed (2 / 5)) 1000, MonitoringCycle (feed (1 / 2)) 6000]
      (initial_agent\<lparr>priceAlerts := [alert_above ''a1'' 45000 (Some (\<lambda>x. Thrown))]\<rparr>))) =
     [priceAlert ''a1'' ''BTC-USD'' 50000 45000, priceAlert ''a1'' ''BTC-USD'' 55000 45000] \<and>
   map (\<lambda>(aid, alert). (aid, active alert)) (priceAlerts (run [MonitoringCycle (feed (2 / 5)) 1000, MonitoringCycle (feed (1 / 2)) 6000]
      (initial_agent\<lparr>priceAlerts := [alert_above ''a1'' 45000 (Some (\<lambda>x. Thrown))]\<rparr>))) = [(''a1'', True)]"
  by (simp add: monitoringCycle_def checkPriceAlerts_def updateMarketData_def mockProducts_def
      feed_def initial_agent_def alert_above_def getMarketData_def triggered_def say_def Let_def
      emitted_def)

text \<open>
  C2. A limit order does not execute at its limit price: \<open>executeTrade\<close> stamps every
  order, market or limit, with the current price of the store. A limit buy at
  \<open>45000\<close> with the store at \<open>50000.12\<close> is recorded at \<open>50000.12\<close>.
\<close>

theorem executeTrade_limit_order_at_store_price:
  "fst (limitBuy 7 ''BTC-USD'' ''0.001'' ''45000''
         (initial_agent\<lparr>account := Some ''0xA'',
                         marketData := [''BTC-USD'' \<mapsto> snapshot ''BTC-USD'' 50000.12]\<rparr>))
   = Inr \<lparr>productId = ''BTC-USD'', orderType = Limit, side = Buy, amount = ''0.001'',
          limitPrice = Some ''45000'', trade_id = 7, status = ''completed'', timestamp = 7,
          executedPrice = 50000.12\<rparr>"
  by (simp add: limitBuy_def executeTrade_def getCurrentPrice_def getMarketData_def
      initial_agent_def snapshot_def say_def Let_def TradeConfig.defs TradeDetails.defs)

lemma strategies_loop_append:
  "executeActiveStrategies_loop now (xs @ ys) s =
     (case executeActiveStrategies_loop now xs s of
        (xs', s1) \<Rightarrow>
          (case executeActiveStrategies_loop now ys s1 of
             (ys', s2) \<Rightarrow> (xs' @ ys', s2)))"
proof (induction xs arbitrary: s)
  case Nil
  then show ?case by (simp split: prod.splits)
next
  case (Cons x xs)
  obtain sid strategy where x: "x = (sid, strategy)" by (cases x)
  show ?case
    by (simp add: x Cons.IH Let_def split: prod.splits)
qed

lemma strategies_loop_keys:
  "map fst (fst (executeActiveStrategies_loop now strats s)) = map fst strats"
proof (induction strats arbitrary: s)
  case Nil
  then show ?case by simp
next
  case (Cons x xs)
  obtain sid strategy where x: "x = (sid, strategy)" by (cases x)
  show ?case
  proof (cases "enabled strategy")
    case False
    with Cons.IH [of s] show ?thesis
      by (cases "executeActiveStrategies_loop now xs s") (simp add: x)
  next
    case True
    obtain e strategy' s1 where ex: "executeStrategy now strategy s = (e, strategy', s1)"
      by (cases "executeStrategy now strategy s")
    define s2 where "s2 = (case e of None \<Rightarrow> s1 | Some err \<Rightarrow> say [Log (StrategyError sid err)] s1)"
    from Cons.IH [of s2] True ex show ?thesis
      by (cases "executeActiveStrategies_loop now xs s2") (simp add: x s2_def Let_def)
  qed
qed




text \<open>
  C4. A callback that throws is not caught by the scan: the error leaves
  \<open>checkPriceAlerts\<close> and the cycle. The second alert, which would fire, is not
  scanned, the enabled strategy is not evaluated, and the first alert stays active.
  (An evaluator that throws is caught: the loop over the strategies always reaches
  every strategy, \<open>strategies_loop_append\<close>.)
\<close>

theorem throwing_callback_aborts_cycle:
  "fst (monitoringCycle (feed (2 / 5)) 1000
     (initial_agent\<lparr>account := Some ''0xA'',
        priceAlerts := [alert_above ''a1'' 45000 (Some (\<lambda>x. Thrown)), alert_above ''a2'' 45000 None],
        strategies := [dca_strategy ''s1'' ''BTC-USD'']\<rparr>)) = Some CallbackError \<and>
   trace (snd (monitoringCycle (feed (2 / 5)) 1000
     (initial_agent\<lparr>account := Some ''0xA'',
        priceAlerts := [alert_above ''a1'' 45000 (Some (\<lambda>x. Thrown)), alert_above ''a2'' 45000 None],
        strategies := [dca_strategy ''s1'' ''BTC-USD'']\<rparr>))) =
     [Log (AlertTriggered ''BTC-USD'' Above 45000), Log (CurrentPrice 50000),
      Emit (priceAlert ''a1'' ''BTC-USD'' 50000 45000), Invoke ''a1'' 50000] \<and>
   map (\<lambda>(aid, alert). (aid, active alert)) (priceAlerts (snd (monitoringCycle (feed (2 / 5)) 1000
     (initial_agent\<lparr>account := Some ''0xA'',
        priceAlerts := [alert_above ''a1'' 45000 (Some (\<lambda>x. Thrown)), alert_above ''a2'' 45000 None],
        strategies := [dca_strategy ''s1'' ''BTC-USD'']\<rparr>)))) = [(''a1'', True), (''a2'', True)] \<and>
   orderHistory (snd (monitoringCycle (feed (2 / 5)) 1000
     (initial_agent\<lparr>account := Some ''0xA'',
        priceAlerts := [alert_above ''a1'' 45000 (Some (\<lambda>x. Thrown)), alert_above ''a2'' 45000 None],
        strategies := [dca_strategy ''s1'' ''BTC-USD'']\<rparr>))) = []"
  by (simp add: monitoringCycle_def checkPriceAlerts_def updateMarketData_def mockProducts_def
      feed_def initial_agent_def alert_above_def dca_strategy_def
      getMarketData_def triggered_def say_def Let_def)

lemma marketBuy_success:
  "account s = Some a \<Longrightarrow> marketData s p = Some d \<Longrightarrow>
   marketBuy now p amt s =
     (Inr (trade_record now (market_order Buy p amt) (price d)),
      traded now (market_order Buy p amt) (price d) s)"
  using executeTrade_success [of s a "market_order Buy p amt" d now]
  by (simp add: marketBuy_def market_order_def trade_record_def traded_def)

lemma marketSell_success:
  "account s = Some a \<Longrightarrow> marketData s p = Some d \<Longrightarrow>
   marketSell now p amt s =
     (Inr (trade_record now (market_order Sell p amt) (price d)),
      traded now (market_order Sell p amt) (price d) s)"
  using executeTrade_success [of s a "market_order Sell p amt" d now]
  by (simp add: marketSell_def market_order_def trade_record_def traded_def)

lemma traded_fields [simp]:
  "account (traded now config x s) = account s"
  "priceAlerts (traded now config x s) = priceAlerts s"
  "strategies (traded now config x s) = strategies s"
  "marketData (traded now config x s) = marketData s"
  "orderHistory (traded now config x s) = orderHistory s @ [trade_record now config x]"
  by (simp_all add: traded_def)

lemma executeGridStrategy_hits:
  assumes "marketData s p = Some d"
  shows "executeGridStrategy p ps s =
     (None, ps, say (map (\<lambda>k. Log (GridLevelHit (grid_line ps k))) (grid_hits ps (price d))) s)"
  unfolding executeGridStrategy_def grid_hits_def grid_line_def grid_step_def
  by (simp only: getCurrentPrice_Some [OF assms] sum.case Let_def gridLoop_filter)

lemma hundred_tenths: "js_mul (Fin 100) (fl 0.1) = Fin 10"
  unfolding fl_tenth
  by (simp, subst fl_eval [where n = 49]) (simp_all add: round_even_def)

lemma eth_step: "grid_step eth_grid = Fin 100"
  by (simp add: grid_step_def eth_grid_def js_sub_def)

lemma eth_hits: "grid_hits eth_grid 2503 = [5]"
  unfolding grid_hits_def grid_line_def eth_step hundred_tenths
  by (simp add: eth_grid_def upt_rec js_sub_def)

lemma eth_line: "grid_line eth_grid 5 = Fin 2500"
  unfolding grid_line_def eth_step by (simp add: eth_grid_def)

lemma eth_price: "price (snapshot ''ETH-USD'' 2503) = 2503"
  by (simp add: snapshot_def)

lemma eth_grid_at_2503:
  "marketData s ''ETH-USD'' = Some (snapshot ''ETH-USD'' 2503) \<Longrightarrow>
   executeGridStrategy ''ETH-USD'' eth_grid s = (None, eth_grid, say [Log (GridLevelHit (Fin 2500))] s)"
proof -
  assume m: "marketData s ''ETH-USD'' = Some (snapshot ''ETH-USD'' 2503)"
  show ?thesis
    by (simp add: executeGridStrategy_hits [OF m] eth_price eth_hits eth_line)
qed

text \<open>
  C5, as amended. The grid evaluator computes, in double arithmetic,
  \<open>step = (upperPrice - lowerPrice) / gridLevels\<close> and, on every evaluation, signals a
  level hit for exactly the grid lines \<open>lowerPrice + k * step\<close>, \<open>0 \<le> k < gridLevels\<close>,
  whose distance from the current price is less than \<open>step * 0.1\<close>. The signal depends
  on the current price only: a level is signaled again on every cycle in which the
  price is within its tolerance band.
\<close>

theorem grid_signals_every_cycle:
  assumes "marketData s p = Some d"
  shows "executeGridStrategy p ps s =
     (None, ps, say (map (\<lambda>k. Log (GridLevelHit (grid_line ps k))) (grid_hits ps (price d))) s)"
  using assms by (rule executeGridStrategy_hits)

theorem grid_signals_every_cycle_witness:
  "executeGridStrategy ''ETH-USD'' eth_grid
     (initial_agent\<lparr>marketData := [''ETH-USD'' \<mapsto> snapshot ''ETH-USD'' 2503]\<rparr>) =
   (None, eth_grid,
    initial_agent\<lparr>marketData := [''ETH-USD'' \<mapsto> snapshot ''ETH-USD'' 2503],
                   trace := [Log (GridLevelHit (Fin 2500))]\<rparr>)"
  using grid_signals_every_cycle [of
     "initial_agent\<lparr>marketData := [''ETH-USD'' \<mapsto> snapshot ''ETH-USD'' 2503]\<rparr>"
     "''ETH-USD''" "snapshot ''ETH-USD'' 2503" eth_grid]
  by (simp add: eth_price eth_hits eth_line initial_agent_def say_def)

text \<open>
  C5 as stated fails: a level is not signaled once per entry into its band. With the
  price at \<open>2503\<close> in two consecutive cycles, level \<open>2500\<close> is signaled in both.
\<close>

theorem grid_level_signaled_again:
  "trace (snd (snd (executeGridStrategy ''ETH-USD'' eth_grid
     (snd (snd (executeGridStrategy ''ETH-USD'' eth_grid
        (initial_agent\<lparr>marketData := [''ETH-USD'' \<mapsto> snapshot ''ETH-USD'' 2503]\<rparr>))))))) =
   [Log (GridLevelHit (Fin 2500)), Log (GridLevelHit (Fin 2500))]"
  by (simp add: eth_grid_at_2503 initial_agent_def)

text \<open>
  The band is decided on the rounded values: on the grid from \<open>0\<close> to \<open>10\<close> with
  three levels, the price \<open>7\<close> is at distance \<open>1/3\<close> from the line \<open>20/3\<close>, which
  is the exact tolerance; computed, the distance is \<open>0.33333333333333304\<close>, below the
  computed tolerance \<open>0.33333333333333337\<close>, and the level is signaled.
\<close>

lemma grid_rounded_band:
  "grid_hits \<lparr>lowerPrice = 0, upperPrice = 10, gridLevels = 3, amountPerLevel = ''1'',
               activeLevels = []\<rparr> 7 = [2]"
proof -
  have g: "grid_step \<lparr>lowerPrice = 0, upperPrice = 10, gridLevels = 3, amountPerLevel = ''1'',
               activeLevels = []\<rparr> = Fin (7505999378950827 / 2 ^ 51)"
    unfolding grid_step_def js_sub_def
    by (simp, subst fl_eval [where n = 51]) (simp_all add: round_even_def)
  have t: "js_mul (Fin (7505999378950827 / 2 ^ 51)) (fl 0.1) = Fin (6004799503160662 / 2 ^ 54)"
    unfolding fl_tenth
    by (simp, subst fl_eval [where n = 54]) (simp_all add: round_even_def)
  show ?thesis
    unfolding grid_hits_def grid_line_def g t
    by (simp add: upt_rec js_sub_def fl_eval [where n = 50] fl_eval [where n = 51]
        fl_eval [where n = 54] round_even_def)
qed

text \<open>
  C10. When the instrument has a snapshot, the grid evaluator does not throw, leaves the
  strategy's parameters, the order history and every other field of the agent but the
  console unchanged, emits no event and submits no trade: all it does is write
  level-hit lines.
\<close>

theorem grid_read_only:
  assumes "marketData s p = Some d"
  shows "fst (executeGridStrategy p ps s) = None \<and>
         fst (snd (executeGridStrategy p ps s)) = ps \<and>
         orderHistory (snd (snd (executeGridStrategy p ps s))) = orderHistory s \<and>
         emitted (trace (snd (snd (executeGridStrategy p ps s)))) = emitted (trace s) \<and>
         account (snd (snd (executeGridStrategy p ps s))) = account s \<and>
         priceAlerts (snd (snd (executeGridStrategy p ps s))) = priceAlerts s \<and>
         strategies (snd (snd (executeGridStrategy p ps s))) = strategies s \<and>
         marketData (snd (snd (executeGridStrategy p ps s))) = marketData s \<and>
         (\<exists>levels. trace (snd (snd (executeGridStrategy p ps s))) =
                     trace s @ map (\<lambda>g. Log (GridLevelHit g)) levels)"
proof -
  have e: "emitted (map (\<lambda>k. Log (GridLevelHit (grid_line ps k))) ks) = []" for ks
    by (induction ks) (simp_all add: emitted_def)
  have "\<exists>levels. map (\<lambda>k. Log (GridLevelHit (grid_line ps k))) (grid_hits ps (price d)) =
                  map (\<lambda>g. Log (GridLevelHit g)) levels"
    by (rule exI [of _ "map (grid_line ps) (grid_hits ps (price d))"]) simp
  then show ?thesis
    using e by (simp add: executeGridStrategy_hits [OF assms] emitted_def)
qed

theorem grid_read_only_witness:
  "fst (executeGridStrategy ''ETH-USD'' eth_grid (trading_agent ''ETH-USD'' 2503)) = None \<and>
   fst (snd (executeGridStrategy ''ETH-USD'' eth_grid (trading_agent ''ETH-USD'' 2503))) = eth_grid \<and>
   orderHistory (snd (snd (executeGridStrategy ''ETH-USD'' eth_grid (trading_agent ''ETH-USD'' 2503)))) = [] \<and>
   emitted (trace (snd (snd (executeGridStrategy ''ETH-USD'' eth_grid (trading_agent ''ETH-USD'' 2503))))) = []"
  using grid_read_only [of "trading_agent ''ETH-USD'' 2503" "''ETH-USD''" "snapshot ''ETH-USD'' 2503" eth_grid]
  by (simp add: trading_agent_def initial_agent_def emitted_def)

lemma dca_step:
  assumes "account s = Some a" "marketData s p = Some d" "lastExecution ps \<noteq> Some 0"
  shows "executeDCAStrategy now p ps s =
     (if dca_due now ps
      then (None, ps\<lparr>lastExecution := Some now\<rparr>,
            traded now (market_order Buy p (amountPerTrade ps)) (price d)
              (say [Log (ExecutingDCA (amountPerTrade ps) p)] s))
      else (None, ps, s))"
proof (cases "lastExecution ps")
  case None
  with assms show ?thesis
    by (simp add: executeDCAStrategy_def dca_due_def marketBuy_success [where a = a and d = d])
next
  case (Some t)
  with assms have "t \<noteq> 0" by simp
  with Some assms show ?thesis
    by (simp add: executeDCAStrategy_def dca_due_def marketBuy_success [where a = a and d = d]
        not_less)
qed







lemma dca_fires_example:
  "dca_fires ''BTC-USD''
        [(1000, trading_agent ''BTC-USD'' 50000), (2000, trading_agent ''BTC-USD'' 50000),
         (3601000, trading_agent ''BTC-USD'' 50000)]
        (btc_dca None) = [1000, 3601000]"
proof -
  have m: "marketData (trading_agent ''BTC-USD'' 50000) ''BTC-USD'' = Some (snapshot ''BTC-USD'' 50000)"
    and a: "account (trading_agent ''BTC-USD'' 50000) = Some ''0xA''"
    by (simp_all add: trading_agent_def initial_agent_def)
  show ?thesis
    by (simp add: dca_step [OF a m] btc_dca_def dca_due_def)
qed

lemma momentum_step:
  assumes "account s = Some a" "marketData s p = Some d"
  shows "executeMomentumStrategy now p ps s =
     (None, ps\<lparr>lastPrice := Some (price d)\<rparr>,
      case momentum_signal ps (price d) of
        None \<Rightarrow> s
      | Some (sd, pc) \<Rightarrow>
          traded now (market_order sd p (tradeAmount ps)) (price d)
            (say [Log (signal_line sd pc)] s))"
proof (cases "lastPrice ps")
  case None
  with assms show ?thesis
    by (simp add: executeMomentumStrategy_def getCurrentPrice_Some momentum_signal_def)
next
  case (Some lp)
  with assms show ?thesis
    by (simp add: executeMomentumStrategy_def getCurrentPrice_Some momentum_signal_def Let_def
        pctChange_def signal_line_def
        marketBuy_success [where a = a and d = d] marketSell_success [where a = a and d = d])
qed

lemma pctChange_100_106: "pctChange 106 100 = Fin 6"
  unfolding pctChange_def js_sub_def
  by (simp, subst fl_eval [where n = 57], simp_all add: round_even_def,
      subst fl_eval [where n = 50], simp_all add: round_even_def)

text \<open>
  C9, as amended. With an account and a snapshot, a momentum evaluation with no recorded
  price (or a recorded price of \<open>0\<close>) submits no trade; otherwise it computes, in
  double arithmetic, \<open>pctChange = (current - last) / last * 100\<close> and, when
  \<open>\<bar>pctChange\<bar> \<ge> threshold\<close>, submits a market buy of \<open>tradeAmount\<close> if
  \<open>pctChange > 0\<close> and a market sell of \<open>tradeAmount\<close> if \<open>pctChange \<le> 0\<close>, and no
  trade when the change is below the threshold. In every case the recorded price
  afterwards is the price of this cycle.
\<close>

theorem momentum_evaluation:
  assumes "account s = Some a" "marketData s p = Some d"
  shows "executeMomentumStrategy now p ps s =
     (None, ps\<lparr>lastPrice := Some (price d)\<rparr>,
      case momentum_signal ps (price d) of
        None \<Rightarrow> s
      | Some (sd, pc) \<Rightarrow>
          traded now (market_order sd p (tradeAmount ps)) (price d)
            (say [Log (signal_line sd pc)] s))"
  using assms by (rule momentum_step)

theorem momentum_evaluation_witness:
  "executeMomentumStrategy 5 ''SOL-USD'' (sol_momentum 5 100) (trading_agent ''SOL-USD'' 106) =
     (None, sol_momentum 5 106,
      traded 5 (market_order Buy ''SOL-USD'' ''1'') 106
        (say [Log (MomentumBuySignal (Fin 6))] (trading_agent ''SOL-USD'' 106)))"
  using momentum_evaluation [of "trading_agent ''SOL-USD'' 106" "''0xA''" "''SOL-USD''"
      "snapshot ''SOL-USD'' 106" 5 "sol_momentum 5 100"]
  by (simp add: trading_agent_def initial_agent_def snapshot_def sol_momentum_def
      momentum_signal_def pctChange_100_106 signal_line_def js_ge_def js_gt_def)

text \<open>
  C9 as stated fails: a sell is submitted for a change that is not negative. With
  threshold \<open>0\<close> and an unchanged price the percentage change is \<open>0\<close> and the
  evaluator sells.
\<close>

theorem momentum_sells_on_zero_change:
  "pctChange 100 100 = Fin 0 \<and>
   orderHistory (snd (snd (executeMomentumStrategy 5 ''SOL-USD'' (sol_momentum 0 100)
      (trading_agent ''SOL-USD'' 100)))) =
     [trade_record 5 (market_order Sell ''SOL-USD'' ''1'') 100]"
proof -
  have m: "marketData (trading_agent ''SOL-USD'' 100) ''SOL-USD'' = Some (snapshot ''SOL-USD'' 100)"
    and a: "account (trading_agent ''SOL-USD'' 100) = Some ''0xA''"
    and h: "orderHistory (trading_agent ''SOL-USD'' 100) = []"
    by (simp_all add: trading_agent_def initial_agent_def)
  have p: "price (snapshot ''SOL-USD'' 100) = 100" by (simp add: snapshot_def)
  have pc: "pctChange 100 100 = Fin 0" by (simp add: pctChange_def js_sub_def)
  have s: "momentum_signal (sol_momentum 0 100) 100 = Some (Sell, Fin 0)"
    by (simp add: momentum_signal_def pc sol_momentum_def js_ge_def js_gt_def)
  show ?thesis
    by (simp add: momentum_step [OF a m] p s h pc) (simp add: sol_momentum_def)
qed

text \<open>
  For a positive threshold the sell branch is taken for negative changes only, as the
  original statement has it.
\<close>

lemma momentum_signal_positive_threshold:
  assumes "0 < threshold ps" "lastPrice ps = Some lp" "lp \<noteq> 0"
  shows "momentum_signal ps c =
     (if js_ge (js_abs (pctChange c lp)) (Fin (threshold ps)) \<and> js_gt (pctChange c lp) (Fin 0)
      then Some (Buy, pctChange c lp)
      else if js_ge (js_abs (pctChange c lp)) (Fin (threshold ps)) \<and> js_lt (pctChange c lp) (Fin 0)
      then Some (Sell, pctChange c lp)
      else None)"
  using assms by (cases "pctChange c lp") (auto simp: momentum_signal_def js_ge_def js_gt_def)

text \<open>
  The comparison is made on the rounded value: from \<open>100\<close> to \<open>129\<close> the computed
  change is \<open>28.999999999999996\<close>, below a threshold of \<open>29\<close>, and nothing is
  submitted.
\<close>

lemma pctChange_100_129: "pctChange 129 100 = Fin (8162774324609023 / 2 ^ 48)"
  unfolding pctChange_def js_sub_def
  by (simp, subst fl_eval [where n = 54], simp_all add: round_even_def,
      subst fl_eval [where n = 48], simp_all add: round_even_def)

lemma momentum_rounded_below_threshold:
  "executeMomentumStrategy 5 ''SOL-USD'' (sol_momentum 29 100) (trading_agent ''SOL-USD'' 129) =
     (None, sol_momentum 29 129, trading_agent ''SOL-USD'' 129)"
proof -
  have m: "marketData (trading_agent ''SOL-USD'' 129) ''SOL-USD'' = Some (snapshot ''SOL-USD'' 129)"
    and a: "account (trading_agent ''SOL-USD'' 129) = Some ''0xA''"
    by (simp_all add: trading_agent_def initial_agent_def)
  have p: "price (snapshot ''SOL-USD'' 129) = 129" by (simp add: snapshot_def)
  have s: "momentum_signal (sol_momentum 29 100) 129 = None"
    by (simp add: momentum_signal_def pctChange_100_129 sol_momentum_def js_ge_def)
  show ?thesis
    by (simp add: momentum_step [OF a m] p s) (simp add: sol_momentum_def)
qed

lemma mr_zScore_full: "real (length h) = n \<Longrightarrow> mr_zScore c h n = zscore h c"
  by (auto simp: mr_zScore_def mr_stdDev_def mr_variance_def mr_mean_def zscore_def std_dev_def
      variance_def mean_def)

lemma push_shift_bounded:
  "real (length h0) \<le> n \<Longrightarrow> real (length (push_shift h0 c n)) \<le> n"
  by (auto simp: push_shift_def Let_def)

lemma meanrev_step:
  assumes "account s = Some a" "marketData s p = Some d"
    and "h = push_shift (priceHistory ps) (price d) (lookbackPeriod ps)"
  shows "executeMeanReversionStrategy now p ps s =
     (None, ps\<lparr>priceHistory := h\<rparr>,
      case meanrev_signal ps h (price d) of
        None \<Rightarrow> s
      | Some (sd, z) \<Rightarrow>
          traded now (market_order sd p (mr_tradeAmount ps)) (price d)
            (say [Log (meanrev_line sd z)] s)) \<and>
     (real (length (priceHistory ps)) \<le> lookbackPeriod ps \<longrightarrow>
        real (length h) \<le> lookbackPeriod ps)"
proof -
  have ev: "executeMeanReversionStrategy now p ps s =
     (None, ps\<lparr>priceHistory := h\<rparr>,
      case meanrev_signal ps h (price d) of
        None \<Rightarrow> s
      | Some (sd, z) \<Rightarrow>
          traded now (market_order sd p (mr_tradeAmount ps)) (price d)
            (say [Log (meanrev_line sd z)] s))"
  proof (cases "real (length h) = lookbackPeriod ps")
    case False
    with assms show ?thesis
      by (simp add: executeMeanReversionStrategy_def getCurrentPrice_Some Let_def meanrev_signal_def)
  next
    case True
    with assms mr_zScore_full [OF True, of "price d"] show ?thesis
      by (simp add: executeMeanReversionStrategy_def getCurrentPrice_Some Let_def
          meanrev_signal_def meanrev_line_def
          marketBuy_success [where a = a and d = d] marketSell_success [where a = a and d = d])
  qed
  show ?thesis
    using ev push_shift_bounded [of "priceHistory ps" "lookbackPeriod ps" "price d"] assms(3)
    by simp
qed

lemma zscore_1_3: "zscore [1, 3] 3 = Fin 1"
  by (simp add: zscore_def std_dev_def variance_def mean_def js_sub_def js_sq_def)

text \<open>
  C6, as amended. With an account and a snapshot, a mean-reversion evaluation pushes the
  current price onto the buffer and drops the oldest price when the buffer is longer
  than \<open>lookbackPeriod\<close>, so a buffer within capacity stays within capacity; it produces
  no signal until the buffer holds exactly \<open>lookbackPeriod\<close> prices; once full, it
  computes in double arithmetic the mean of the buffer, the population standard
  deviation around it and \<open>zScore = (current - mean) / stdDev\<close>, and submits a market
  buy if \<open>zScore < -threshold\<close>, otherwise a market sell if \<open>zScore > threshold\<close>, and
  nothing otherwise (in particular at \<open>zScore = \<plusminus>threshold\<close>, and when the z-score is
  not a number).
\<close>

theorem meanrev_evaluation:
  assumes "account s = Some a" "marketData s p = Some d"
    and "h = push_shift (priceHistory ps) (price d) (lookbackPeriod ps)"
  shows "executeMeanReversionStrategy now p ps s =
     (None, ps\<lparr>priceHistory := h\<rparr>,
      case meanrev_signal ps h (price d) of
        None \<Rightarrow> s
      | Some (sd, z) \<Rightarrow>
          traded now (market_order sd p (mr_tradeAmount ps)) (price d)
            (say [Log (meanrev_line sd z)] s)) \<and>
     (real (length (priceHistory ps)) \<le> lookbackPeriod ps \<longrightarrow>
        real (length h) \<le> lookbackPeriod ps)"
  using assms by (rule meanrev_step)

theorem meanrev_evaluation_witness:
  "executeMeanReversionStrategy 7 ''BTC-USD'' (btc_meanrev 2 (1 / 2) [1]) (trading_agent ''BTC-USD'' 3) =
     (None, btc_meanrev 2 (1 / 2) [1, 3],
      traded 7 (market_order Sell ''BTC-USD'' ''1'') 3
        (say [Log (MeanReversionSell (Fin 1))] (trading_agent ''BTC-USD'' 3)))"
  using meanrev_evaluation [of "trading_agent ''BTC-USD'' 3" "''0xA''" "''BTC-USD''"
      "snapshot ''BTC-USD'' 3" "[1, 3]" "btc_meanrev 2 (1 / 2) [1]" 7]
  by (simp add: trading_agent_def initial_agent_def snapshot_def btc_meanrev_def push_shift_def
      meanrev_signal_def zscore_1_3 meanrev_line_def js_gt_def)

text \<open>
  C6 as stated fails at the threshold: with buffer \<open>[1, 3]\<close>, price \<open>3\<close> and
  threshold \<open>1\<close> the z-score is \<open>1 \<ge> threshold\<close>, and no sell is submitted.
\<close>

theorem meanrev_no_signal_at_threshold:
  "zscore [1, 3] 3 = Fin 1 \<and>
   executeMeanReversionStrategy 7 ''BTC-USD'' (btc_meanrev 2 1 [1]) (trading_agent ''BTC-USD'' 3) =
     (None, btc_meanrev 2 1 [1, 3], trading_agent ''BTC-USD'' 3)"
proof -
  have m: "marketData (trading_agent ''BTC-USD'' 3) ''BTC-USD'' = Some (snapshot ''BTC-USD'' 3)"
    and a: "account (trading_agent ''BTC-USD'' 3) = Some ''0xA''"
    by (simp_all add: trading_agent_def initial_agent_def)
  have p: "price (snapshot ''BTC-USD'' 3) = 3" by (simp add: snapshot_def)
  have h: "push_shift (priceHistory (btc_meanrev 2 1 [1])) 3 (lookbackPeriod (btc_meanrev 2 1 [1])) = [1, 3]"
    by (simp add: push_shift_def btc_meanrev_def)
  have sg: "meanrev_signal (btc_meanrev 2 1 [1]) [1, 3] 3 = None"
    by (simp add: meanrev_signal_def zscore_1_3 js_gt_def) (simp add: btc_meanrev_def)
  from meanrev_step [OF a m, of "[1, 3]" "btc_meanrev 2 1 [1]" 7] h p sg zscore_1_3 show ?thesis
    by (simp add: btc_meanrev_def)
qed

text \<open>
  Seven equal prices \<open>2503.7\<close>: the sum is rounded at the fifth, sixth and seventh
  addition, the computed mean is the next double above \<open>2503.7\<close>, and the computed
  deviation is \<open>2\<^sup>-\<^sup>4\<^sup>1\<close>, not zero. The z-score of the price is \<open>-1\<close>.
\<close>

lemmas fl_at = fl_eval [where n = 38] fl_eval [where n = 39] fl_eval [where n = 40]
  fl_eval [where n = 41] fl_eval [where n = 93] fl_eval [where n = 132] fl_eval [where n = 133]
  fl_eval [where n = 134]

lemma sum_2503_7:
  "foldl (\<lambda>a b. js_add a (Fin b)) (Fin 0)
     [double_2503_7, double_2503_7, double_2503_7,
      double_2503_7, double_2503_7, double_2503_7, double_2503_7] =
   Fin (4817482709309850 / 2 ^ 38)"
  by (simp add: double_2503_7_def fl_at round_even_def)

lemma mean_2503_7:
  "mean [double_2503_7, double_2503_7, double_2503_7,
      double_2503_7, double_2503_7, double_2503_7, double_2503_7] =
   Fin (5505694524925543 / 2 ^ 41)"
  unfolding mean_def sum_2503_7
  by (simp add: fl_at round_even_def)

lemma variance_2503_7:
  "variance [double_2503_7, double_2503_7, double_2503_7,
      double_2503_7, double_2503_7, double_2503_7, double_2503_7] =
   Fin (1 / 2 ^ 82)"
  unfolding variance_def mean_2503_7
  by (simp add: double_2503_7_def js_sub_def js_sq_def fl_at round_even_def)

lemma sqrt_2_82: "sqrt (1 / 2 ^ 82) = 1 / 2 ^ 41"
  by (rule real_sqrt_unique) (simp_all add: power_divide)

lemma std_dev_2503_7:
  "std_dev [double_2503_7, double_2503_7, double_2503_7,
      double_2503_7, double_2503_7, double_2503_7, double_2503_7] =
   Fin (1 / 2 ^ 41)"
  unfolding std_dev_def variance_2503_7 js_sqrt.simps sqrt_2_82
  by (simp add: fl_at round_even_def)

lemma zscore_2503_7:
  "zscore [double_2503_7, double_2503_7, double_2503_7,
      double_2503_7, double_2503_7, double_2503_7, double_2503_7]
     double_2503_7 = Fin (- 1)"
  unfolding zscore_def std_dev_2503_7 mean_2503_7
  by (simp add: double_2503_7_def js_sub_def fl_at round_even_def)

lemma fl_2503_7: "fl 2503.7 = Fin double_2503_7"
  unfolding double_2503_7_def
  by (subst fl_eval [where n = 41]) (simp_all add: round_even_def)

text \<open>
  C7. A full buffer whose population standard deviation is zero can produce a trade:
  the evaluator has no guard for a zero deviation and relies on the computed one. With
  lookback \<open>7\<close>, threshold \<open>0.5\<close> and seven prices \<open>2503.7\<close> the deviation of the
  buffer is zero, the computed z-score is \<open>-1\<close>, and a market buy is submitted.
\<close>

theorem meanrev_buys_at_zero_deviation:
  "population_std_dev [double_2503_7, double_2503_7, double_2503_7,
      double_2503_7, double_2503_7, double_2503_7, double_2503_7] = 0 \<and>
   executeMeanReversionStrategy 7 ''BTC-USD''
     (btc_meanrev 7 (1 / 2) [double_2503_7, double_2503_7, double_2503_7,
      double_2503_7, double_2503_7, double_2503_7])
     (trading_agent ''BTC-USD'' double_2503_7) =
   (None,
    btc_meanrev 7 (1 / 2) [double_2503_7, double_2503_7, double_2503_7,
      double_2503_7, double_2503_7, double_2503_7, double_2503_7],
    traded 7 (market_order Buy ''BTC-USD'' ''1'') double_2503_7
      (say [Log (MeanReversionBuy (Fin 1))] (trading_agent ''BTC-USD'' double_2503_7)))"
proof -
  have m: "marketData (trading_agent ''BTC-USD'' double_2503_7) ''BTC-USD'' =
      Some (snapshot ''BTC-USD'' double_2503_7)"
    and a: "account (trading_agent ''BTC-USD'' double_2503_7) = Some ''0xA''"
    by (simp_all add: trading_agent_def initial_agent_def)
  have p: "price (snapshot ''BTC-USD'' double_2503_7) = double_2503_7" by (simp add: snapshot_def)
  have h: "push_shift (priceHistory (btc_meanrev 7 (1 / 2) [double_2503_7, double_2503_7, double_2503_7,
      double_2503_7, double_2503_7, double_2503_7]))
      double_2503_7 (lookbackPeriod (btc_meanrev 7 (1 / 2) [double_2503_7, double_2503_7, double_2503_7,
      double_2503_7, double_2503_7, double_2503_7])) =
      [double_2503_7, double_2503_7, double_2503_7,
      double_2503_7, double_2503_7, double_2503_7, double_2503_7]"
    by (simp add: push_shift_def btc_meanrev_def)
  have sg: "meanrev_signal (btc_meanrev 7 (1 / 2) [double_2503_7, double_2503_7, double_2503_7,
      double_2503_7, double_2503_7, double_2503_7])
      [double_2503_7, double_2503_7, double_2503_7,
      double_2503_7, double_2503_7, double_2503_7, double_2503_7] double_2503_7 = Some (Buy, Fin (- 1))"
    by (simp add: meanrev_signal_def zscore_2503_7) (simp add: btc_meanrev_def)
  have z: "population_std_dev [double_2503_7, double_2503_7, double_2503_7,
      double_2503_7, double_2503_7, double_2503_7, double_2503_7] = 0"
    by (simp add: population_std_dev_def)
  from meanrev_step [OF a m, of "[double_2503_7, double_2503_7, double_2503_7,
      double_2503_7, double_2503_7, double_2503_7, double_2503_7]" "btc_meanrev 7 (1 / 2) [double_2503_7, double_2503_7, double_2503_7,
      double_2503_7, double_2503_7, double_2503_7]" 7] h p sg z show ?thesis
    by (simp add: btc_meanrev_def meanrev_line_def)
qed

text \<open>
  When the computed deviation is zero (five prices \<open>100\<close>), the z-score is \<open>0 / 0\<close>,
  not a number: both comparisons are false and nothing is submitted.
\<close>

lemma meanrev_computed_zero_deviation:
  "zscore [100, 100, 100, 100, 100] 100 = NaN \<and>
   executeMeanReversionStrategy 7 ''BTC-USD'' (btc_meanrev 5 2 [100, 100, 100, 100])
     (trading_agent ''BTC-USD'' 100) =
   (None, btc_meanrev 5 2 [100, 100, 100, 100, 100], trading_agent ''BTC-USD'' 100)"
proof -
  have m: "marketData (trading_agent ''BTC-USD'' 100) ''BTC-USD'' = Some (snapshot ''BTC-USD'' 100)"
    and a: "account (trading_agent ''BTC-USD'' 100) = Some ''0xA''"
    by (simp_all add: trading_agent_def initial_agent_def)
  have p: "price (snapshot ''BTC-USD'' 100) = 100" by (simp add: snapshot_def)
  have h: "push_shift (priceHistory (btc_meanrev 5 2 [100, 100, 100, 100])) 100
      (lookbackPeriod (btc_meanrev 5 2 [100, 100, 100, 100])) = [100, 100, 100, 100, 100]"
    by (simp add: push_shift_def btc_meanrev_def)
  have z: "zscore [100, 100, 100, 100, 100] 100 = NaN"
    by (simp add: zscore_def std_dev_def variance_def mean_def js_sub_def js_sq_def)
  have sg: "meanrev_signal (btc_meanrev 5 2 [100, 100, 100, 100]) [100, 100, 100, 100, 100] 100 = None"
    by (simp add: meanrev_signal_def z js_gt_def)
  from meanrev_step [OF a m, of "[100, 100, 100, 100, 100]" "btc_meanrev 5 2 [100, 100, 100, 100]" 7]
    h p sg z show ?thesis
    by (simp add: btc_meanrev_def)
qed

end
